theory Spec2Isabelle
  imports Main
begin

text \<open>
  A shallow embedding of the core of the rego terminal-UI runtime: the layout nodes with
  their measure and render passes, the keyed state and effect hooks, the focus manager,
  event dispatch over the component tree and the render boundary of the main loop.

  Conventions. Go's \<open>int\<close> is modelled by \<open>int\<close>: the quantities are terminal
  coordinates and sizes, far from the 64-bit range. A \<open>rune\<close> is its code point. A Go
  string that the code ranges over is the list of its runes. A nil interface value or nil
  pointer is \<open>None\<close>. A closure is represented by an identifier of an abstract type,
  and calling it is recorded in a log. A run-time panic is the result \<open>None\<close> of the
  function that raises it.
\<close>

section \<open>Geometry and input events (context.go)\<close>

type_synonym rune = int

type_synonym ctxid = nat

datatype MouseEventType =
    MouseEventPress | MouseEventRelease | MouseEventClick | MouseEventMove
  | MouseEventScrollUp | MouseEventScrollDown

datatype MouseButton = MouseButtonNone | MouseButtonLeft | MouseButtonMiddle | MouseButtonRight

record MouseEvent =
  X :: int
  Y :: int
  Button :: MouseButton
  Type :: MouseEventType

record Rect =
  X :: int
  Y :: int
  W :: int
  H :: int

definition Contains :: "Rect \<Rightarrow> int \<Rightarrow> int \<Rightarrow> bool" where
  "Contains r x y \<longleftrightarrow> x \<ge> X r \<and> x < X r + W r \<and> y \<ge> Y r \<and> y < Y r + H r"

section \<open>Styles\<close>

datatype Color = Default | Black | Red | Green | Yellow | Blue | Magenta | Cyan | White | Gray

datatype BorderStyle = BorderNone | BorderSingle | BorderDouble | BorderRounded | BorderThick

datatype Align = AlignLeft | AlignCenter | AlignRight

record Style =
  fg :: Color
  bg :: Color
  bold :: bool
  italic :: bool
  underline :: bool
  dim :: bool
  blink :: bool
  width :: int
  height :: int
  flex :: int
  paddingTop :: int
  paddingBottom :: int
  paddingLeft :: int
  paddingRight :: int
  border :: BorderStyle
  borderColor :: Color
  align :: Align
  valign :: Align

definition defaultStyle :: Style where
  "defaultStyle =
     \<lparr>fg = Default, bg = Default, bold = False, italic = False, underline = False,
      dim = False, blink = False, width = 0, height = 0, flex = 0,
      paddingTop = 0, paddingBottom = 0, paddingLeft = 0, paddingRight = 0,
      border = BorderNone, borderColor = Default, align = AlignLeft, valign = AlignLeft\<rparr>"

text \<open>The part of tcell's style and colour values that the code sets.\<close>

datatype tcellColor =
    ColorDefault | ColorBlack | ColorRed | ColorGreen | ColorYellow | ColorBlue
  | ColorDarkMagenta | ColorDarkCyan | ColorWhite | ColorGray

record tcellStyle =
  tfg :: tcellColor
  tbg :: tcellColor
  tbold :: bool
  titalic :: bool
  tunderline :: bool
  tdim :: bool
  tblink :: bool

definition StyleDefault :: tcellStyle where
  "StyleDefault =
     \<lparr>tfg = ColorDefault, tbg = ColorDefault, tbold = False, titalic = False,
      tunderline = False, tdim = False, tblink = False\<rparr>"

fun colorToTcell :: "Color \<Rightarrow> tcellColor" where
  "colorToTcell Black = ColorBlack"
| "colorToTcell Red = ColorRed"
| "colorToTcell Green = ColorGreen"
| "colorToTcell Yellow = ColorYellow"
| "colorToTcell Blue = ColorBlue"
| "colorToTcell Magenta = ColorDarkMagenta"
| "colorToTcell Cyan = ColorDarkCyan"
| "colorToTcell White = ColorWhite"
| "colorToTcell Gray = ColorGray"
| "colorToTcell Default = ColorDefault"

definition toTcell :: "Style \<Rightarrow> tcellStyle" where
  "toTcell s =
     (let style0 = StyleDefault\<lparr>tfg := colorToTcell (fg s)\<rparr>;
          style1 = (if bg s \<noteq> Default then style0\<lparr>tbg := colorToTcell (bg s)\<rparr> else style0);
          style2 = (if bold s then style1\<lparr>tbold := True\<rparr> else style1);
          style3 = (if italic s then style2\<lparr>titalic := True\<rparr> else style2);
          style4 = (if underline s then style3\<lparr>tunderline := True\<rparr> else style3);
          style5 = (if dim s then style4\<lparr>tdim := True\<rparr> else style4)
      in if blink s then style5\<lparr>tblink := True\<rparr> else style5)"

record BorderChars =
  TopLeft :: rune
  TopRight :: rune
  BottomLeft :: rune
  BottomRight :: rune
  Horizontal :: rune
  Vertical :: rune

fun getBorderChars :: "BorderStyle \<Rightarrow> BorderChars" where
  "getBorderChars BorderSingle =
     \<lparr>TopLeft = 0x250C, TopRight = 0x2510, BottomLeft = 0x2514, BottomRight = 0x2518,
      Horizontal = 0x2500, Vertical = 0x2502\<rparr>"
| "getBorderChars BorderDouble =
     \<lparr>TopLeft = 0x2554, TopRight = 0x2557, BottomLeft = 0x255A, BottomRight = 0x255D,
      Horizontal = 0x2550, Vertical = 0x2551\<rparr>"
| "getBorderChars BorderRounded =
     \<lparr>TopLeft = 0x256D, TopRight = 0x256E, BottomLeft = 0x2570, BottomRight = 0x256F,
      Horizontal = 0x2500, Vertical = 0x2502\<rparr>"
| "getBorderChars BorderThick =
     \<lparr>TopLeft = 0x250F, TopRight = 0x2513, BottomLeft = 0x2517, BottomRight = 0x251B,
      Horizontal = 0x2501, Vertical = 0x2503\<rparr>"
| "getBorderChars BorderNone =
     \<lparr>TopLeft = 0, TopRight = 0, BottomLeft = 0, BottomRight = 0, Horizontal = 0, Vertical = 0\<rparr>"

section \<open>Layout nodes\<close>

text \<open>
  A state handle (\<open>State[T]\<close>): the value read when the handle was obtained or last
  written through it, the owning context and the key of the cell in that context.
\<close>

record 'a State =
  Val :: 'a
  ctx :: ctxid
  key :: string

text \<open>
  The node variants of the layout engine, one constructor per struct with the struct's
  fields in order. \<open>scrollNode\<close> carries \<open>ctx, child, offY, autoScroll, flex,
  scrollTopState\<close>; its field \<open>contentHeight\<close> is assigned at the start of every render
  before it is read, so it is a local value of the model. The \<open>runtime\<close> pointer of
  \<open>cursorNode\<close> is not used by its methods. The Markdown widget, whose output comes from
  an external renderer, is not part of the model.
\<close>

datatype node =
    textNode "rune list" Style bool
  | boxNode "node option" Style
  | vstackNode "node option list" Style int Align
  | hstackNode "node option list" Style int Align
  | whenNode bool "node option"
  | whenElseNode bool "node option" "node option"
  | spacerNode
  | dividerNode rune Style
  | emptyNode
  | cursorNode
  | scrollNode ctxid "node option" int bool int "int State option"
  | componentNode ctxid "node option"

text \<open>
  The two functions of the go-runewidth library that the layout code calls are parameters
  of the model.
\<close>

record runewidth =
  RuneWidth :: "rune \<Rightarrow> int"
  StringWidth :: "rune list \<Rightarrow> int"

text \<open>Go's integer division truncates towards zero.\<close>

definition go_div :: "int \<Rightarrow> int \<Rightarrow> int" where
  "go_div a b = sgn a * sgn b * (\<bar>a\<bar> div \<bar>b\<bar>)"

text \<open>
  What a render pass does besides returning a height: the calls it makes on the screen it
  was given (\<open>SetContent\<close> without combining runes, \<open>ShowCursor\<close>), the rectangle a
  component wrapper records on its context, and the call of \<open>Set\<close> on the scroll-offset
  state handle of a scroll node. They are collected in call order.
\<close>

datatype event =
    SetContent int int rune tcellStyle
  | ShowCursor int int
  | SetRect ctxid Rect
  | StateSet "int State" int

subsection \<open>The clipping proxy\<close>

record clipScreen =
  viewX :: int
  viewY :: int
  viewW :: int
  viewH :: int
  offX :: int
  offY :: int

text \<open>
  \<open>clipScreen_call\<close> is what reaches the wrapped screen when the call is made on the
  proxy: \<open>SetContent\<close> and \<open>ShowCursor\<close> are overridden, writes to contexts and state
  handles do not go through a screen.
\<close>

fun clipScreen_call :: "clipScreen \<Rightarrow> event \<Rightarrow> event list" where
  "clipScreen_call s (SetContent x y mainc style) =
     (let realX = x + offX s; realY = y + offY s
      in if realX \<ge> viewX s \<and> realX < viewX s + viewW s \<and>
            realY \<ge> viewY s \<and> realY < viewY s + viewH s
         then [SetContent realX realY mainc style] else [])"
| "clipScreen_call s (ShowCursor x y) =
     (let realX = x + offX s; realY = y + offY s
      in if realX \<ge> viewX s \<and> realX < viewX s + viewW s \<and>
            realY \<ge> viewY s \<and> realY < viewY s + viewH s
         then [ShowCursor realX realY] else [])"
| "clipScreen_call s (SetRect c r) = [SetRect c r]"
| "clipScreen_call s (StateSet st v) = [StateSet st v]"

definition through_clipScreen :: "clipScreen \<Rightarrow> event list \<Rightarrow> event list" where
  "through_clipScreen s es = concat (map (clipScreen_call s) es)"

subsection \<open>Measuring\<close>

text \<open>
  The wrapping loop of \<open>measureNodeHeight\<close> for a text node, started with
  \<open>currentX = 0\<close> and \<open>lines = 1\<close>. The rune 10 is the newline.
\<close>

fun measureWrap :: "(rune \<Rightarrow> int) \<Rightarrow> rune list \<Rightarrow> int \<Rightarrow> int \<Rightarrow> int \<Rightarrow> int" where
  "measureWrap rw [] w currentX lines = lines"
| "measureWrap rw (r # rs) w currentX lines =
     (let charWidth = rw r;
          over = currentX + charWidth > w;
          currentX1 = (if over then 0 else currentX);
          lines1 = (if over then lines + 1 else lines)
      in if r = 10 then measureWrap rw rs w 0 (lines1 + 1)
         else measureWrap rw rs w (currentX1 + charWidth) lines1)"

text \<open>
  \<open>measureNodeHeight\<close> switches on the dynamic type of the node; a nil node and a
  divider fall to the \<open>default\<close> case. The two loops over children are
  \<open>vstackNode.measureHeight\<close> (sum and count of the non-nil children) and the
  horizontal stack's maximum, which measures every child at
  \<open>width / len(children)\<close>.
\<close>

fun measureNodeHeight :: "runewidth \<Rightarrow> node option \<Rightarrow> int \<Rightarrow> int"
  and vstack_measure_children :: "runewidth \<Rightarrow> node option list \<Rightarrow> int \<Rightarrow> int \<Rightarrow> int \<Rightarrow> int \<times> int"
  and hstack_measure_children :: "runewidth \<Rightarrow> node option list \<Rightarrow> int \<Rightarrow> int \<Rightarrow> int"
where
  "measureNodeHeight lib (Some (textNode content st wr)) w =
     (if \<not> wr \<or> w \<le> 0 then 1 else measureWrap (RuneWidth lib) content w 0 1)"
| "measureNodeHeight lib (Some (vstackNode children st gap justify)) w =
     (let innerWidth = w - (paddingLeft st + paddingRight st)
      in if innerWidth \<le> 0 then paddingTop st + paddingBottom st
         else (case vstack_measure_children lib children innerWidth 0 0 of (tot, count) \<Rightarrow>
                 (if count > 1 then tot + (count - 1) * gap else tot)
                   + paddingTop st + paddingBottom st))"
| "measureNodeHeight lib (Some (hstackNode children st gap justify)) w =
     hstack_measure_children lib children (go_div w (int (length children))) 0"
| "measureNodeHeight lib (Some (boxNode child st)) w =
     (if height st > 0 then height st
      else
        let innerHeight =
              (case child of None \<Rightarrow> 1
               | Some c \<Rightarrow>
                   measureNodeHeight lib (Some c)
                     ((if border st \<noteq> BorderNone then w - 2 else w)
                        - (paddingLeft st + paddingRight st)))
        in if innerHeight = 0 then 0
           else innerHeight + (if border st \<noteq> BorderNone then 2 else 0)
                  + paddingTop st + paddingBottom st)"
| "measureNodeHeight lib (Some (whenNode condition n)) w =
     (case n of Some c \<Rightarrow> (if condition then measureNodeHeight lib (Some c) w else 0) | None \<Rightarrow> 0)"
| "measureNodeHeight lib (Some (whenElseNode condition trueNode falseNode)) w =
     (if condition then (case trueNode of Some c \<Rightarrow> measureNodeHeight lib (Some c) w | None \<Rightarrow> 0)
      else (case falseNode of Some c \<Rightarrow> measureNodeHeight lib (Some c) w | None \<Rightarrow> 0))"
| "measureNodeHeight lib (Some spacerNode) w = 0"
| "measureNodeHeight lib (Some (scrollNode cx child off autoScroll fl sts)) w = 0"
| "measureNodeHeight lib (Some emptyNode) w = 0"
| "measureNodeHeight lib (Some cursorNode) w = 0"
| "measureNodeHeight lib (Some (componentNode cx n)) w = measureNodeHeight lib n w"
| "measureNodeHeight lib (Some (dividerNode ch st)) w = 1"
| "measureNodeHeight lib None w = 1"
| "vstack_measure_children lib [] w tot count = (tot, count)"
| "vstack_measure_children lib (c # rest) w tot count =
     (case c of None \<Rightarrow> vstack_measure_children lib rest w tot count
      | Some n \<Rightarrow>
          vstack_measure_children lib rest w (tot + measureNodeHeight lib (Some n) w) (count + 1))"
| "hstack_measure_children lib [] w maxH = maxH"
| "hstack_measure_children lib (c # rest) w maxH =
     (case c of None \<Rightarrow> hstack_measure_children lib rest w maxH
      | Some n \<Rightarrow>
          (let h = measureNodeHeight lib (Some n) w
           in hstack_measure_children lib rest w (if h > maxH then h else maxH)))"


subsection \<open>Flex capability\<close>

text \<open>The filter that both stacks apply to their children before laying them out.\<close>

fun nonNil :: "node option list \<Rightarrow> node list" where
  "nonNil [] = []"
| "nonNil (None # rest) = nonNil rest"
| "nonNil (Some c # rest) = c # nonNil rest"

text \<open>
  \<open>getFlex n\<close> is \<open>None\<close> when the type of \<open>n\<close> does not implement the
  \<open>flexNode\<close> interface (text, conditional, divider, empty and cursor nodes), and the
  result of its \<open>getFlex\<close> method otherwise. For a component wrapper the method looks
  at the wrapped node: its flex weight when it is a flex node, the style's flex when it
  is a text node, and 0 otherwise.
\<close>

fun getFlex :: "node \<Rightarrow> int option" where
  "getFlex (boxNode child st) = Some (flex st)"
| "getFlex (vstackNode children st gap justify) = Some (flex st)"
| "getFlex (hstackNode children st gap justify) = Some (flex st)"
| "getFlex spacerNode = Some 1"
| "getFlex (scrollNode cx child off autoScroll fl sts) = Some (if fl > 0 then fl else 1)"
| "getFlex (componentNode cx inner) =
     Some (case inner of
             None \<Rightarrow> 0
           | Some (textNode content st wr) \<Rightarrow> flex st
           | Some n \<Rightarrow> (case getFlex n of Some f \<Rightarrow> f | None \<Rightarrow> 0))"
| "getFlex n = None"

text \<open>
  The test \<open>fn, ok := child.(flexNode); ok && fn.getFlex() > 0\<close> of the vertical
  stack, and the weight it then reads.
\<close>

definition isFlexChild :: "node \<Rightarrow> bool" where
  "isFlexChild n = (case getFlex n of Some f \<Rightarrow> f > 0 | None \<Rightarrow> False)"

definition flexOf :: "node \<Rightarrow> int" where
  "flexOf n = (case getFlex n of Some f \<Rightarrow> f | None \<Rightarrow> 0)"



subsection \<open>Rendering text\<close>

text \<open>The unwrapped and the wrapped drawing loops of \<open>textNode.render\<close>.\<close>

fun renderLine :: "(rune \<Rightarrow> int) \<Rightarrow> tcellStyle \<Rightarrow> rune list \<Rightarrow> int \<Rightarrow> int \<Rightarrow> int \<Rightarrow> event list" where
  "renderLine rw style [] col y limit = []"
| "renderLine rw style (r # rs) col y limit =
     (let charWidth = rw r
      in if col + charWidth > limit then []
         else SetContent col y r style # renderLine rw style rs (col + charWidth) y limit)"

fun renderWrap ::
  "(rune \<Rightarrow> int) \<Rightarrow> tcellStyle \<Rightarrow> rune list \<Rightarrow> int \<Rightarrow> int \<Rightarrow> int \<Rightarrow> int \<Rightarrow> int \<Rightarrow> int
     \<Rightarrow> int \<times> event list" where
  "renderWrap rw style [] x w h currentX currentY lines = (lines, [])"
| "renderWrap rw style (r # rs) x w h currentX currentY lines =
     (let charWidth = rw r;
          over = currentX + charWidth > x + w;
          currentX1 = (if over then x else currentX);
          currentY1 = (if over then currentY + 1 else currentY);
          lines1 = (if over then lines + 1 else lines)
      in if over \<and> lines1 > h then (lines1, [])
         else if r = 10 then
           (if lines1 + 1 > h then (lines1 + 1, [])
            else renderWrap rw style rs x w h x (currentY1 + 1) (lines1 + 1))
         else
           (case renderWrap rw style rs x w h (currentX1 + charWidth) currentY1 lines1 of
              (n, es) \<Rightarrow> (n, SetContent currentX1 currentY1 r style # es)))"

definition textNode_render ::
  "runewidth \<Rightarrow> rune list \<Rightarrow> Style \<Rightarrow> bool \<Rightarrow> int \<Rightarrow> int \<Rightarrow> int \<Rightarrow> int \<Rightarrow> int \<times> event list" where
  "textNode_render lib content st wr x y w h =
     (if h \<le> 0 then (0, [])
      else
        let actualWidth = (if width st > 0 \<and> width st < w then width st else w);
            style = toTcell st
        in if \<not> wr then
             (let textWidth = StringWidth lib content;
                  startX =
                    (case align st of
                       AlignCenter \<Rightarrow>
                         (if textWidth < actualWidth then x + go_div (actualWidth - textWidth) 2 else x)
                     | AlignRight \<Rightarrow>
                         (if textWidth < actualWidth then x + actualWidth - textWidth else x)
                     | AlignLeft \<Rightarrow> x)
              in (1, renderLine (RuneWidth lib) style content startX y (x + actualWidth)))
           else renderWrap (RuneWidth lib) style content x w h x y 1)"

subsection \<open>Rendering boxes\<close>

definition drawBackground :: "Style \<Rightarrow> int \<Rightarrow> int \<Rightarrow> int \<Rightarrow> int \<Rightarrow> event list" where
  "drawBackground st x y w h =
     concat (map (\<lambda>row. map (\<lambda>col. SetContent col row 32 (StyleDefault\<lparr>tbg := colorToTcell (bg st)\<rparr>))
                            [x..x + w - 1])
                 [y..y + h - 1])"

definition renderBorder :: "Style \<Rightarrow> int \<Rightarrow> int \<Rightarrow> int \<Rightarrow> int \<Rightarrow> event list" where
  "renderBorder st x y w h =
     (let chars = getBorderChars (border st);
          style = StyleDefault\<lparr>tfg := colorToTcell (borderColor st)\<rparr>
      in [SetContent x y (TopLeft chars) style,
          SetContent (x + w - 1) y (TopRight chars) style,
          SetContent x (y + h - 1) (BottomLeft chars) style,
          SetContent (x + w - 1) (y + h - 1) (BottomRight chars) style]
         @ concat (map (\<lambda>col. [SetContent col y (Horizontal chars) style,
                                SetContent col (y + h - 1) (Horizontal chars) style])
                       [x + 1..x + w - 2])
         @ concat (map (\<lambda>row. [SetContent x row (Vertical chars) style,
                                SetContent (x + w - 1) row (Vertical chars) style])
                       [y + 1..y + h - 2]))"

subsection \<open>Horizontal stack helpers\<close>

fun hstack_measureWidth :: "runewidth \<Rightarrow> node option \<Rightarrow> int"
  and hstack_measureWidth_sum :: "runewidth \<Rightarrow> node option list \<Rightarrow> int \<Rightarrow> int \<Rightarrow> int \<times> int"
  and hstack_measureWidth_max :: "runewidth \<Rightarrow> node option list \<Rightarrow> int \<Rightarrow> int"
where
  "hstack_measureWidth lib (Some (textNode content st wr)) =
     (if width st > 0 then width st else StringWidth lib content)"
| "hstack_measureWidth lib (Some (boxNode child st)) =
     (if width st > 0 then width st
      else
        (case child of None \<Rightarrow> 0 | Some c \<Rightarrow> hstack_measureWidth lib (Some c))
          + paddingLeft st + paddingRight st + (if border st \<noteq> BorderNone then 1 else 0) * 2)"
| "hstack_measureWidth lib (Some spacerNode) = 0"
| "hstack_measureWidth lib (Some cursorNode) = 0"
| "hstack_measureWidth lib (Some (hstackNode children st gap justify)) =
     (case hstack_measureWidth_sum lib children 0 0 of (tot, count) \<Rightarrow>
        (if count > 1 then tot + (count - 1) * gap else tot))"
| "hstack_measureWidth lib (Some (vstackNode children st gap justify)) =
     hstack_measureWidth_max lib children 0"
| "hstack_measureWidth lib (Some (componentNode cx n)) = hstack_measureWidth lib n"
| "hstack_measureWidth lib (Some (whenNode condition n)) =
     (case n of Some c \<Rightarrow> (if condition then hstack_measureWidth lib (Some c) else 0) | None \<Rightarrow> 0)"
| "hstack_measureWidth lib (Some (whenElseNode condition trueNode falseNode)) =
     (if condition then (case trueNode of Some c \<Rightarrow> hstack_measureWidth lib (Some c) | None \<Rightarrow> 0)
      else (case falseNode of Some c \<Rightarrow> hstack_measureWidth lib (Some c) | None \<Rightarrow> 0))"
| "hstack_measureWidth lib (Some emptyNode) = 0"
| "hstack_measureWidth lib (Some (dividerNode ch st)) = 10"
| "hstack_measureWidth lib (Some (scrollNode cx child off autoScroll fl sts)) = 10"
| "hstack_measureWidth lib None = 10"
| "hstack_measureWidth_sum lib [] tot count = (tot, count)"
| "hstack_measureWidth_sum lib (c # rest) tot count =
     (case c of None \<Rightarrow> hstack_measureWidth_sum lib rest tot count
      | Some n \<Rightarrow> hstack_measureWidth_sum lib rest (tot + hstack_measureWidth lib (Some n)) (count + 1))"
| "hstack_measureWidth_max lib [] maxW = maxW"
| "hstack_measureWidth_max lib (c # rest) maxW =
     (case c of None \<Rightarrow> hstack_measureWidth_max lib rest maxW
      | Some n \<Rightarrow>
          (let w = hstack_measureWidth lib (Some n)
           in hstack_measureWidth_max lib rest (if w > maxW then w else maxW)))"

fun getChildFlex :: "node option \<Rightarrow> int" where
  "getChildFlex (Some (textNode content st wr)) = flex st"
| "getChildFlex (Some (boxNode child st)) = flex st"
| "getChildFlex (Some spacerNode) = 1"
| "getChildFlex (Some (vstackNode children st gap justify)) = flex st"
| "getChildFlex (Some (hstackNode children st gap justify)) = flex st"
| "getChildFlex (Some (componentNode cx n)) = getChildFlex n"
| "getChildFlex n = 0"

text \<open>
  The first pass of each stack over its non-nil children, started with the gap total as
  the fixed size and 0 as the flex total.
\<close>

fun vstack_fixed_and_flex :: "runewidth \<Rightarrow> node list \<Rightarrow> int \<Rightarrow> int \<Rightarrow> int \<Rightarrow> int \<times> int" where
  "vstack_fixed_and_flex lib [] w fixedHeight totalFlex = (fixedHeight, totalFlex)"
| "vstack_fixed_and_flex lib (c # rest) w fixedHeight totalFlex =
     (if isFlexChild c then vstack_fixed_and_flex lib rest w fixedHeight (totalFlex + flexOf c)
      else vstack_fixed_and_flex lib rest w (fixedHeight + measureNodeHeight lib (Some c) w) totalFlex)"

fun hstack_fixed_and_flex :: "runewidth \<Rightarrow> node list \<Rightarrow> int \<Rightarrow> int \<Rightarrow> int \<times> int" where
  "hstack_fixed_and_flex lib [] fixedWidth totalFlex = (fixedWidth, totalFlex)"
| "hstack_fixed_and_flex lib (c # rest) fixedWidth totalFlex =
     (let childWidth = hstack_measureWidth lib (Some c);
          fl = getChildFlex (Some c)
      in if fl > 0 then hstack_fixed_and_flex lib rest fixedWidth (totalFlex + fl)
         else hstack_fixed_and_flex lib rest (fixedWidth + childWidth) totalFlex)"



subsection \<open>The render pass\<close>

text \<open>
  \<open>render lib n x y w h\<close> is \<open>n.render(screen, x, y, w, h)\<close>: the returned height
  and the events of the call, or \<open>None\<close> when the call panics. The only panic in the
  layout code is the integer division by a zero content height in the scroll bar.

  \<open>vstackNode_render\<close> is the body of \<open>vstackNode.render\<close>. With the height and the
  events it returns a record of its second loop: for every child rendered, in order, the
  row \<open>currentY\<close> at which the child is placed and the height \<open>childHeight\<close> handed
  to the child's \<open>render\<close>. \<open>render\<close> drops that record.
\<close>

lemma size_nonNil:
  "size_list size (nonNil cs) \<le> size_list (size_option size) cs"
  by (induction cs rule: nonNil.induct) simp_all

lemma size_nonNil_double:
  "2 * size_list size (nonNil cs) < Suc (Suc (2 * size_list (size_option size) cs))"
  using size_nonNil [of cs] by linarith

function (sequential) render ::
    "runewidth \<Rightarrow> node \<Rightarrow> int \<Rightarrow> int \<Rightarrow> int \<Rightarrow> int \<Rightarrow> (int \<times> event list) option"
  and vstackNode_render ::
    "runewidth \<Rightarrow> node option list \<Rightarrow> Style \<Rightarrow> int \<Rightarrow> Align \<Rightarrow> int \<Rightarrow> int \<Rightarrow> int \<Rightarrow> int
       \<Rightarrow> (int \<times> event list \<times> (int \<times> int) list) option"
  and vstack_render_children ::
    "runewidth \<Rightarrow> node list \<Rightarrow> int \<Rightarrow> int \<Rightarrow> int \<Rightarrow> int \<Rightarrow> int \<Rightarrow> int \<Rightarrow> int \<Rightarrow> int
       \<Rightarrow> (int \<times> event list \<times> (int \<times> int) list) option"
  and hstack_render_children ::
    "runewidth \<Rightarrow> node list \<Rightarrow> int \<Rightarrow> int \<Rightarrow> int \<Rightarrow> int \<Rightarrow> int \<Rightarrow> int \<Rightarrow> int \<Rightarrow> int
       \<Rightarrow> (int \<times> event list) option"
where
  "render lib (textNode content st wr) x y w h = Some (textNode_render lib content st wr x y w h)"
| "render lib (boxNode child st) x y w h =
     (if h \<le> 0 \<or> w \<le> 0 then Some (0, [])
      else
        let actualWidth = (if width st > 0 \<and> width st < w then width st else w);
            actualHeight = (if height st > 0 \<and> height st < h then height st else h);
            borderSize = (if border st \<noteq> BorderNone then 1 else 0);
            maxContentWidth = actualWidth - borderSize * 2 - paddingLeft st - paddingRight st;
            maxContentHeight = actualHeight - borderSize * 2 - paddingTop st - paddingBottom st;
            decoration =
              (if bg st \<noteq> Default then drawBackground st x y actualWidth actualHeight else [])
              @ (if border st \<noteq> BorderNone then renderBorder st x y actualWidth actualHeight else [])
        in if maxContentWidth \<le> 0 \<or> maxContentHeight \<le> 0 then Some (actualHeight, decoration)
           else
             let childHeight =
                   (case child of None \<Rightarrow> 0 | Some c \<Rightarrow> measureNodeHeight lib (Some c) maxContentWidth);
                 contentY0 = y + borderSize + paddingTop st;
                 contentY =
                   (if (height st > 0 \<or> h > childHeight) \<and> childHeight < maxContentHeight then
                      (case valign st of
                         AlignCenter \<Rightarrow> contentY0 + go_div (maxContentHeight - childHeight) 2
                       | AlignRight \<Rightarrow> contentY0 + (maxContentHeight - childHeight)
                       | AlignLeft \<Rightarrow> contentY0)
                    else contentY0);
                 contentX = x + borderSize + paddingLeft st
             in case (case child of None \<Rightarrow> Some (0, [])
                      | Some c \<Rightarrow> render lib c contentX contentY maxContentWidth maxContentHeight) of
                  None \<Rightarrow> None
                | Some (usedHeight, es) \<Rightarrow>
                    Some (if height st > 0 then height st
                          else usedHeight + borderSize * 2 + paddingTop st + paddingBottom st,
                          decoration @ es))"
| "render lib (vstackNode children0 st gap justify) x y w h =
     (case vstackNode_render lib children0 st gap justify x y w h of
        None \<Rightarrow> None
      | Some (totalUsedHeight, es, grants) \<Rightarrow> Some (totalUsedHeight, es))"
| "render lib (hstackNode children0 st gap justify) x y w h =
     (if children0 = [] then Some (0, [])
      else
        let children = nonNil children0
        in if children = [] then Some (0, [])
           else
             case hstack_fixed_and_flex lib children ((int (length children) - 1) * gap) 0 of
               (fixedWidth, totalFlex) \<Rightarrow>
                 let remainingWidth = (if w - fixedWidth < 0 then 0 else w - fixedWidth);
                     flexUnitWidth = (if totalFlex > 0 then go_div remainingWidth totalFlex else 0);
                     totalContentWidth =
                       (if totalFlex > 0 then fixedWidth + remainingWidth else fixedWidth);
                     currentX =
                       (case justify of
                          AlignCenter \<Rightarrow>
                            (if totalContentWidth < w
                             then x + go_div (w - totalContentWidth) 2 else x)
                        | AlignRight \<Rightarrow>
                            (if totalContentWidth < w then x + (w - totalContentWidth) else x)
                        | AlignLeft \<Rightarrow> x)
                 in case hstack_render_children lib children x y w h gap flexUnitWidth currentX 0 of
                      None \<Rightarrow> None
                    | Some (maxHeight, es) \<Rightarrow> Some (if maxHeight = 0 then 1 else maxHeight, es))"
| "render lib (whenNode condition n) x y w h =
     (case n of Some c \<Rightarrow> (if condition then render lib c x y w h else Some (0, []))
      | None \<Rightarrow> Some (0, []))"
| "render lib (whenElseNode condition trueNode falseNode) x y w h =
     (if condition then (case trueNode of Some c \<Rightarrow> render lib c x y w h | None \<Rightarrow> Some (0, []))
      else (case falseNode of Some c \<Rightarrow> render lib c x y w h | None \<Rightarrow> Some (0, [])))"
| "render lib spacerNode x y w h = Some (h, [])"
| "render lib (dividerNode ch st) x y w h =
     (if h \<le> 0 \<or> w \<le> 0 then Some (0, [])
      else Some (1, map (\<lambda>i. SetContent (x + i) y ch (toTcell st)) [0..w - 1]))"
| "render lib emptyNode x y w h = Some (0, [])"
| "render lib cursorNode x y w h = Some (0, [ShowCursor x y])"
| "render lib (scrollNode cx child offY0 autoScroll fl scrollTopState) x y w h =
     (case child of
        None \<Rightarrow> Some (0, [])
      | Some c \<Rightarrow>
          let contentHeight = measureNodeHeight lib (Some c) (w - 1);
              snap = (autoScroll \<and> contentHeight > h);
              offY1 = (if snap then contentHeight - h else offY0);
              written =
                (if snap then (case scrollTopState of Some st \<Rightarrow> [StateSet st offY1] | None \<Rightarrow> [])
                 else []);
              proxy = \<lparr>viewX = x, viewY = y, viewW = w - 1, viewH = h, offX = 0, offY = - offY1\<rparr>
          in case render lib c x y (w - 1) 1000 of
               None \<Rightarrow> None
             | Some (used, es) \<Rightarrow>
                 let scrollbarX = x + w - 1;
                     track =
                       map (\<lambda>i. SetContent scrollbarX (y + i) 0x2502 (StyleDefault\<lparr>tfg := ColorGray\<rparr>))
                           [0..h - 1]
                 in if contentHeight > h then
                      (if contentHeight = 0 then None
                       else
                         let thumbHeight0 = go_div (h * h) contentHeight;
                             thumbHeight = (if thumbHeight0 < 1 then 1 else thumbHeight0);
                             thumbPos0 = go_div (offY1 * h) contentHeight;
                             thumbPos =
                               (if thumbPos0 + thumbHeight > h then h - thumbHeight else thumbPos0);
                             thumb =
                               map (\<lambda>i. SetContent scrollbarX (y + thumbPos + i) 0x2503
                                            (StyleDefault\<lparr>tfg := colorToTcell Cyan\<rparr>))
                                   [0..thumbHeight - 1]
                         in Some (h, written @ through_clipScreen proxy es @ track @ thumb))
                    else Some (h, written @ through_clipScreen proxy es @ track))"
| "render lib (componentNode cx n) x y w h =
     (case (case n of None \<Rightarrow> Some (0, []) | Some c \<Rightarrow> render lib c x y w h) of
        None \<Rightarrow> None
      | Some (usedHeight, es) \<Rightarrow>
          Some (usedHeight, es @ [SetRect cx \<lparr>X = x, Y = y, W = w, H = usedHeight\<rparr>]))"
| "vstackNode_render lib children0 st gap justify x0 y0 w0 h0 =
     (if children0 = [] then Some (0, [], [])
      else
        let x = x0 + paddingLeft st;
            y = y0 + paddingTop st;
            w = w0 - (paddingLeft st + paddingRight st);
            h = h0 - (paddingTop st + paddingBottom st)
        in if w \<le> 0 \<or> h \<le> 0 then Some (0, [], [])
           else
             let children = nonNil children0
             in if children = [] then Some (0, [], [])
                else
                  case vstack_fixed_and_flex lib children w ((int (length children) - 1) * gap) 0 of
                    (fixedHeight, totalFlex) \<Rightarrow>
                      let remainingHeight = (if h - fixedHeight < 0 then 0 else h - fixedHeight);
                          flexUnitHeight =
                            (if totalFlex > 0 then go_div remainingHeight totalFlex else 0);
                          totalContentHeight =
                            (if totalFlex > 0 then fixedHeight + remainingHeight else fixedHeight);
                          currentY =
                            (case justify of
                               AlignCenter \<Rightarrow>
                                 (if totalContentHeight < h
                                  then y + go_div (h - totalContentHeight) 2 else y)
                             | AlignRight \<Rightarrow>
                                 (if totalContentHeight < h then y + (h - totalContentHeight) else y)
                             | AlignLeft \<Rightarrow> y)
                      in vstack_render_children lib children x y w h gap flexUnitHeight currentY 0)"
| "vstack_render_children lib [] x y w h gap flexUnitHeight currentY totalUsedHeight =
     Some (totalUsedHeight, [], [])"
| "vstack_render_children lib (c # rest) x y w h gap flexUnitHeight currentY totalUsedHeight =
     (if currentY \<ge> y + h then Some (totalUsedHeight, [], [])
      else
        let childHeight0 =
              (if isFlexChild c then flexUnitHeight * flexOf c
               else measureNodeHeight lib (Some c) w);
            remainingH = (y + h) - currentY;
            childHeight = (if childHeight0 > remainingH then remainingH else childHeight0)
        in case render lib c x currentY w childHeight of
             None \<Rightarrow> None
           | Some (usedHeight0, es) \<Rightarrow>
               let usedHeight =
                     (if usedHeight0 = 0 \<and> childHeight > 0 then childHeight else usedHeight0);
                   spacing = (if rest \<noteq> [] then gap else 0)
               in case vstack_render_children lib rest x y w h gap flexUnitHeight
                         (currentY + usedHeight + spacing)
                         (totalUsedHeight + usedHeight + spacing) of
                    None \<Rightarrow> None
                  | Some (tot, es', grants) \<Rightarrow>
                      Some (tot, es @ es', (currentY, childHeight) # grants))"
| "hstack_render_children lib [] x y w h gap flexUnitWidth currentX maxHeight = Some (maxHeight, [])"
| "hstack_render_children lib (c # rest) x y w h gap flexUnitWidth currentX maxHeight =
     (if currentX \<ge> x + w then Some (maxHeight, [])
      else
        let fl = getChildFlex (Some c);
            childWidth0 = (if fl > 0 then flexUnitWidth * fl else hstack_measureWidth lib (Some c));
            remainingW = (x + w) - currentX;
            childWidth = (if childWidth0 > remainingW then remainingW else childWidth0);
            childRenderHeight0 = measureNodeHeight lib (Some c) childWidth;
            childRenderHeight1 = (if childRenderHeight0 > h then h else childRenderHeight0);
            childRenderHeight =
              (if childRenderHeight1 = 0 \<and> h > 0 \<and> getFlex c \<noteq> None then h
               else childRenderHeight1)
        in case render lib c currentX y childWidth childRenderHeight of
             None \<Rightarrow> None
           | Some (usedHeight, es) \<Rightarrow>
               (case hstack_render_children lib rest x y w h gap flexUnitWidth
                       (currentX + childWidth + (if rest \<noteq> [] then gap else 0))
                       (if usedHeight > maxHeight then usedHeight else maxHeight) of
                  None \<Rightarrow> None
                | Some (m, es') \<Rightarrow> Some (m, es @ es')))"
  by pat_completeness auto

termination
  by (relation "measure (\<lambda>a. case a of
        Inl (Inl (lib, n, x, y, w, h)) \<Rightarrow> 2 * size n
      | Inl (Inr (lib, cs, r)) \<Rightarrow> 2 * size_list (size_option size) cs + 1
      | Inr (Inl (lib, cs, r)) \<Rightarrow> 2 * size_list size cs
      | Inr (Inr (lib, cs, r)) \<Rightarrow> 2 * size_list size cs)")
     (auto simp: le_imp_less_Suc size_nonNil size_nonNil_double)

section \<open>Focus manager (focus.go)\<close>

text \<open>The registry stores pointers to contexts; a context is named by its identifier.\<close>

record FocusManager =
  focusable :: "string list"
  focusMap :: "string \<rightharpoonup> ctxid"
  currentKey :: string
  order :: int
  orderMap :: "string \<rightharpoonup> int"

definition newFocusManager :: FocusManager where
  "newFocusManager =
     \<lparr>focusable = [], focusMap = Map.empty, currentKey = [], order = 0, orderMap = Map.empty\<rparr>"

definition Register :: "string \<Rightarrow> ctxid \<Rightarrow> FocusManager \<Rightarrow> FocusManager" where
  "Register k c fm =
     (if focusMap fm k \<noteq> None then fm
      else
        let fm1 = fm\<lparr>focusMap := (focusMap fm)(k \<mapsto> c),
                     orderMap := (orderMap fm)(k \<mapsto> order fm),
                     order := order fm + 1,
                     focusable := focusable fm @ [k]\<rparr>
        in if currentKey fm1 = [] then fm1\<lparr>currentKey := k\<rparr> else fm1)"

definition Reset :: "FocusManager \<Rightarrow> FocusManager" where
  "Reset fm = fm\<lparr>focusable := [], focusMap := Map.empty, orderMap := Map.empty, order := 0\<rparr>"

fun removeFirst :: "string \<Rightarrow> string list \<Rightarrow> string list" where
  "removeFirst k [] = []"
| "removeFirst k (k' # ks) = (if k' = k then ks else k' # removeFirst k ks)"

definition Unregister :: "string \<Rightarrow> FocusManager \<Rightarrow> FocusManager" where
  "Unregister k fm =
     (let fm1 = fm\<lparr>focusMap := (focusMap fm)(k := None),
                     orderMap := (orderMap fm)(k := None),
                     focusable := removeFirst k (focusable fm)\<rparr>
      in if currentKey fm1 = k
         then (case focusable fm1 of k0 # ks \<Rightarrow> fm1\<lparr>currentKey := k0\<rparr>
               | [] \<Rightarrow> fm1\<lparr>currentKey := []\<rparr>)
         else fm1)"

text \<open>The \<open>Register\<close> calls of one render pass, in call order.\<close>

fun registerAll :: "(string \<times> ctxid) list \<Rightarrow> FocusManager \<Rightarrow> FocusManager" where
  "registerAll [] fm = fm"
| "registerAll ((k, c) # rest) fm = registerAll rest (Register k c fm)"

section \<open>The runtime record (runtime.go)\<close>

text \<open>
  The fields of \<open>Runtime\<close> that the modelled functions read or write. The terminal is
  represented by the size it reports, the cells written since the last \<open>Clear\<close>, the
  cursor request made on it, and the contents made visible by the last \<open>Show\<close>.
  \<open>refreshChan\<close> is a channel of capacity 1 carrying empty values: its state is
  whether a value is buffered. \<open>quitChan\<close> is only ever closed. The value of
  \<open>lastPanic\<close> has type \<open>any\<close>, with nil for no panic.
\<close>

record 'a Runtime =
  screenSize :: "int \<times> int"
  screen :: "event list"
  screenCursor :: "(int \<times> int) option"
  shown :: "event list"
  focusManager :: FocusManager
  refreshChan :: bool
  quitChanClosed :: bool
  cursorX :: int
  cursorY :: int
  showCursor :: bool
  lastPanic :: "'a option"
  panicStack :: "rune list"

text \<open>\<open>newRuntime\<close>, with the size of the terminal that \<open>Run\<close> attaches.\<close>

definition newRuntime :: "int \<times> int \<Rightarrow> 'a Runtime" where
  "newRuntime sz =
     \<lparr>screenSize = sz, screen = [], screenCursor = None, shown = [],
      focusManager = newFocusManager, refreshChan = False, quitChanClosed = False,
      cursorX = 0, cursorY = 0, showCursor = False, lastPanic = None, panicStack = []\<rparr>"

definition scheduleRefresh :: "'a Runtime \<Rightarrow> 'a Runtime" where
  "scheduleRefresh r = (if \<not> refreshChan r then r\<lparr>refreshChan := True\<rparr> else r)"

definition setCursor :: "int \<Rightarrow> int \<Rightarrow> 'a Runtime \<Rightarrow> 'a Runtime" where
  "setCursor x y r = r\<lparr>cursorX := x, cursorY := y, showCursor := True\<rparr>"

section \<open>Component contexts and hooks\<close>

text \<open>
  An effect slot. The cleanup closure is named by an identifier; nil is \<open>None\<close>.
\<close>

record ('a, 'f) effectSlot =
  deps :: "'a list"
  cleanup :: "'f option"
  ran :: bool

text \<open>
  The fields of a \<open>componentContext\<close> other than its key, its parent and its children,
  which form the tree below. Values of type \<open>any\<close> have type \<open>'a\<close>, closures have type
  \<open>'f\<close>. The reference, memo and context-value stores are not used by the modelled
  functions beyond the two counters that \<open>reset\<close> clears.
\<close>

record ('a, 'f) contextFields =
  rect :: Rect
  states :: "string \<rightharpoonup> 'a"
  effects :: "int \<rightharpoonup> ('a, 'f) effectSlot"
  effectIndex :: int
  refIndex :: int
  memoIndex :: int
  keyHandler :: "'f option"
  mouseHandler :: "'f option"

definition newContextFields :: "('a, 'f) contextFields" where
  "newContextFields =
     \<lparr>rect = \<lparr>X = 0, Y = 0, W = 0, H = 0\<rparr>, states = Map.empty, effects = Map.empty,
      effectIndex = 0, refIndex = 0, memoIndex = 0, keyHandler = None, mouseHandler = None\<rparr>"

definition reset :: "('a, 'f) contextFields \<Rightarrow> ('a, 'f) contextFields" where
  "reset c = c\<lparr>effectIndex := 0, refIndex := 0, memoIndex := 0,
               keyHandler := None, mouseHandler := None\<rparr>"


definition setState :: "string \<Rightarrow> 'a \<Rightarrow> ('a, 'f) contextFields \<Rightarrow> ('a, 'f) contextFields" where
  "setState k v c = c\<lparr>states := (states c)(k \<mapsto> v)\<rparr>"


subsection \<open>State cells\<close>



subsection \<open>Effects\<close>

fun depsEqual_loop :: "('a \<Rightarrow> 'a \<Rightarrow> bool) \<Rightarrow> 'a list \<Rightarrow> 'a list \<Rightarrow> bool" where
  "depsEqual_loop deq (x # xs) (y # ys) = (if \<not> deq x y then False else depsEqual_loop deq xs ys)"
| "depsEqual_loop deq xs ys = True"

definition depsEqual :: "('a \<Rightarrow> 'a \<Rightarrow> bool) \<Rightarrow> 'a list \<Rightarrow> 'a list \<Rightarrow> bool" where
  "depsEqual deq a b = (if length a \<noteq> length b then False else depsEqual_loop deq a b)"

text \<open>
  Calls of closures made by the hooks. An effect body \<open>fn\<close> is given by its identifier
  and by the cleanup closure that this call of it returns (\<open>None\<close> for nil).
\<close>

datatype 'f call = CallEffect 'f | CallCleanup 'f

definition UseEffect ::
  "('a \<Rightarrow> 'a \<Rightarrow> bool) \<Rightarrow> ('a, 'f) contextFields \<Rightarrow> 'f \<times> 'f option \<Rightarrow> 'a list
     \<Rightarrow> ('a, 'f) contextFields \<times> 'f call list" where
  "UseEffect deq c fn ds =
     (let k = effectIndex c;
          c1 = c\<lparr>effectIndex := effectIndex c + 1\<rparr>;
          slot = (case effects c1 k of
                    None \<Rightarrow> \<lparr>deps = [], cleanup = None, ran = False\<rparr>
                  | Some s \<Rightarrow> s);
          c2 = (case effects c1 k of
                  None \<Rightarrow> c1\<lparr>effects := (effects c1)(k \<mapsto> slot)\<rparr>
                | Some s \<Rightarrow> c1);
          shouldRun = (\<not> ran slot \<or> \<not> depsEqual deq (deps slot) ds)
      in if shouldRun then
           (c2\<lparr>effects := (effects c2)(k \<mapsto> \<lparr>deps = ds, cleanup = snd fn, ran = True\<rparr>)\<rparr>,
            (case cleanup slot of Some cl \<Rightarrow> [CallCleanup cl] | None \<Rightarrow> []) @ [CallEffect (fst fn)])
         else (c2, []))"

subsection \<open>The component tree and pointer dispatch\<close>

text \<open>
  A context with its identity (the address of the struct), its key and its children. The
  children are a Go map; the list holds its entries in the order in which one traversal
  visits them.
\<close>

datatype ('a, 'f) componentContext =
  componentContext ctxid string "('a, 'f) contextFields" "(string \<times> ('a, 'f) componentContext) list"

text \<open>
  \<open>dispatchMouseEvent\<close> returns the calls of pointer handlers it makes, each with the
  event value passed.
\<close>

fun dispatchMouseEvent :: "('a, 'f) componentContext \<Rightarrow> MouseEvent \<Rightarrow> ('f \<times> MouseEvent) list" where
  "dispatchMouseEvent (componentContext i k c children) ev =
     (let inRect = Contains (rect c) (MouseEvent.X ev) (MouseEvent.Y ev)
      in (case mouseHandler c of
            Some handler \<Rightarrow> [(handler, if \<not> inRect then ev\<lparr>Type := MouseEventMove\<rparr> else ev)]
          | None \<Rightarrow> [])
         @ concat (map (\<lambda>kc. dispatchMouseEvent (snd kc) ev) children))"

text \<open>All contexts of a tree: the root and its descendants.\<close>

fun contexts :: "('a, 'f) componentContext \<Rightarrow> ('a, 'f) componentContext list" where
  "contexts (componentContext i k c children) =
     componentContext i k c children # concat (map (\<lambda>kc. contexts (snd kc)) children)"

section \<open>The render boundary of the main loop (runtime.go)\<close>

subsection \<open>The diagnostic screen\<close>

text \<open>
  Text drawn by \<open>drawText\<close> is placed by byte index: the loop variable of a range over a
  string is the offset of the rune's first byte. A string is given by its runes, taken
  to be encoded validly, and \<open>RuneLen\<close> is the length of a rune's UTF-8 encoding.
\<close>

definition RuneLen :: "rune \<Rightarrow> int" where
  "RuneLen r = (if r < 0x80 then 1 else if r < 0x800 then 2 else if r < 0x10000 then 3 else 4)"

definition len :: "rune list \<Rightarrow> int" where
  "len s = sum_list (map RuneLen s)"

text \<open>A string literal of the source, all of whose characters are ASCII.\<close>

definition str :: "string \<Rightarrow> rune list" where
  "str s = map (\<lambda>c. int (of_char c)) s"

fun drawText_from :: "int \<Rightarrow> int \<Rightarrow> int \<Rightarrow> rune list \<Rightarrow> tcellStyle \<Rightarrow> event list" where
  "drawText_from i x y [] style = []"
| "drawText_from i x y (ru # rest) style =
     SetContent (x + i) y ru style # drawText_from (i + RuneLen ru) x y rest style"

definition drawText :: "int \<Rightarrow> int \<Rightarrow> rune list \<Rightarrow> tcellStyle \<Rightarrow> event list" where
  "drawText x y text style = drawText_from 0 x y text style"

text \<open>
  \<open>splitLines\<close> cuts at every newline byte and keeps a last piece only when it is not
  empty. The first argument of the loop is the piece read so far.
\<close>

fun splitLines_from :: "rune list \<Rightarrow> rune list \<Rightarrow> rune list list" where
  "splitLines_from piece [] = (if piece \<noteq> [] then [piece] else [])"
| "splitLines_from piece (r # rest) =
     (if r = 10 then piece # splitLines_from [] rest else splitLines_from (piece @ [r]) rest)"

definition splitLines :: "rune list \<Rightarrow> rune list list" where
  "splitLines s = splitLines_from [] s"

fun drawStackLines :: "int \<Rightarrow> int \<Rightarrow> rune list list \<Rightarrow> tcellStyle \<Rightarrow> event list" where
  "drawStackLines i h [] style = []"
| "drawStackLines i h (line # rest) style =
     (if i > h - 10 then []
      else drawText 2 (7 + i) line style @ drawStackLines (i + 1) h rest style)"

text \<open>
  The calls that \<open>drawErrorScreen\<close> makes on the screen, for a terminal size, a panic
  value with its rendering by \<open>fmt\<close>'s \<open>%v\<close> (a parameter), and the captured stack.
\<close>

definition errorScreen ::
  "('a option \<Rightarrow> rune list) \<Rightarrow> int \<times> int \<Rightarrow> 'a option \<Rightarrow> rune list \<Rightarrow> event list" where
  "errorScreen fmtValue sz panicValue stack =
     (let w = fst sz; h = snd sz;
          style = StyleDefault\<lparr>tbg := ColorRed, tfg := ColorWhite\<rparr>;
          title = str ''  REGO RUNTIME PANIC  '';
          msg = str ''Error: '' @ fmtValue panicValue;
          footer = str ''Press Ctrl+C to quit''
      in concat (map (\<lambda>y. map (\<lambda>x. SetContent x y 32 style) [0..w - 1]) [0..h - 1])
         @ drawText (go_div (w - len title) 2) 2 title (style\<lparr>tbold := True\<rparr>)
         @ drawText 2 4 msg style
         @ drawText 2 6 (str ''Stack Trace:'') (style\<lparr>tunderline := True\<rparr>)
         @ drawStackLines 0 h (splitLines stack) style
         @ drawText (go_div (w - len footer) 2) (h - 2) footer (style\<lparr>tdim := True\<rparr>))"

definition drawErrorScreen :: "('a option \<Rightarrow> rune list) \<Rightarrow> 'a Runtime \<Rightarrow> 'a Runtime" where
  "drawErrorScreen fmtValue r =
     r\<lparr>screen := screen r @ errorScreen fmtValue (screenSize r) (lastPanic r) (panicStack r)\<rparr>"

subsection \<open>A render pass\<close>

text \<open>
  The state a render pass works on is the runtime together with the component tree
  rooted at \<open>rootContext\<close>.

  The parts of a pass that are not code of the repository are parameters: the width
  functions, \<open>fmt\<close>'s rendering of a value, the text that \<open>debug.Stack\<close> returns when a
  given value is recovered, the value of Go's integer-division run-time error, the boxing
  of an \<open>int\<close> into \<open>any\<close>, and the root component function. Running the component
  function calls hooks, so it returns the state it leaves; it either returns a node (or
  nil) or panics with a value. A recovered value is not nil (since Go 1.21 a
  \<open>panic(nil)\<close> is recovered as a run-time error value).
\<close>

datatype ('a, 'f) bodyResult =
    Panicked 'a "'a Runtime \<times> ('a, 'f) componentContext"
  | Returned "node option" "'a Runtime \<times> ('a, 'f) componentContext"

record ('a, 'f) program =
  widths :: runewidth
  fmtValue :: "'a option \<Rightarrow> rune list"
  debugStack :: "'a \<Rightarrow> rune list"
  divideError :: 'a
  boxInt :: "int \<Rightarrow> 'a"
  root :: "'a Runtime \<times> ('a, 'f) componentContext \<Rightarrow> ('a, 'f) bodyResult"

fun updateContext ::
  "ctxid \<Rightarrow> (('a, 'f) contextFields \<Rightarrow> ('a, 'f) contextFields) \<Rightarrow> ('a, 'f) componentContext
     \<Rightarrow> ('a, 'f) componentContext" where
  "updateContext cid f (componentContext i k c children) =
     componentContext i k (if i = cid then f c else c)
       (map (\<lambda>kc. (fst kc, updateContext cid f (snd kc))) children)"

definition resetRoot :: "('a, 'f) componentContext \<Rightarrow> ('a, 'f) componentContext" where
  "resetRoot t = (case t of componentContext i k c children \<Rightarrow> componentContext i k (reset c) children)"

text \<open>
  The effect of one event of the layout pass. Cell writes go to the terminal through
  \<open>renderScreenProxy\<close>, which turns \<open>ShowCursor\<close> into \<open>setCursor\<close>. A component
  wrapper assigns the rectangle of its context. \<open>StateSet st v\<close> is the call
  \<open>st.Set(v)\<close> on a \<open>State[int]\<close>: nothing when the handle already holds \<open>v\<close>, and
  otherwise the store entry of the handle's context is set and a refresh scheduled.
\<close>

fun layoutEvent ::
  "(int \<Rightarrow> 'a) \<Rightarrow> 'a Runtime \<times> ('a, 'f) componentContext \<Rightarrow> event
     \<Rightarrow> 'a Runtime \<times> ('a, 'f) componentContext" where
  "layoutEvent box (r, t) (SetContent x y mainc style) =
     (r\<lparr>screen := screen r @ [SetContent x y mainc style]\<rparr>, t)"
| "layoutEvent box (r, t) (ShowCursor x y) = (setCursor x y r, t)"
| "layoutEvent box (r, t) (SetRect cid rc) = (r, updateContext cid (\<lambda>c. c\<lparr>rect := rc\<rparr>) t)"
| "layoutEvent box (r, t) (StateSet st v) =
     (if Val st = v then (r, t)
      else (scheduleRefresh r, updateContext (ctx st) (setState (key st) (box v)) t))"

text \<open>The end of a pass that did not panic: the cursor request and \<open>Show\<close>.\<close>

definition finishPass :: "'a Runtime \<times> ('a, 'f) componentContext \<Rightarrow> 'a Runtime \<times> ('a, 'f) componentContext" where
  "finishPass s =
     (case s of (r, t) \<Rightarrow>
        let r1 = (if showCursor r then r\<lparr>screenCursor := Some (cursorX r, cursorY r)\<rparr>
                  else r\<lparr>screenCursor := None\<rparr>)
        in (r1\<lparr>shown := screen r1\<rparr>, t))"

text \<open>
  The part of \<open>render\<close> that runs under the deferred \<open>recover\<close>: either the state at
  the end of the pass, or the panic value with the state in which it was raised. For a
  panic of the layout pass that state is the one before the layout pass.
\<close>

definition normalPass ::
  "('a, 'f) program \<Rightarrow> 'a Runtime \<times> ('a, 'f) componentContext
     \<Rightarrow> ('a \<times> 'a Runtime \<times> ('a, 'f) componentContext) + ('a Runtime \<times> ('a, 'f) componentContext)" where
  "normalPass prog s =
     (case s of (r, t) \<Rightarrow>
        (case root prog (r\<lparr>focusManager := Reset (focusManager r), showCursor := False\<rparr>, resetRoot t) of
           Panicked v s1 \<Rightarrow> Inl (v, s1)
         | Returned n s1 \<Rightarrow>
             (case n of
                None \<Rightarrow> Inr (finishPass s1)
              | Some nd \<Rightarrow>
                  (case render (widths prog) nd 0 0 (fst (screenSize (fst s1))) (snd (screenSize (fst s1))) of
                     None \<Rightarrow> Inl (divideError prog, s1)
                   | Some (used, es) \<Rightarrow> Inr (finishPass (foldl (layoutEvent (boxInt prog)) s1 es))))))"

text \<open>The deferred function of \<open>render\<close> when \<open>recover\<close> returns a value.\<close>

definition recovered ::
  "('a, 'f) program \<Rightarrow> 'a \<Rightarrow> 'a Runtime \<times> ('a, 'f) componentContext
     \<Rightarrow> 'a Runtime \<times> ('a, 'f) componentContext" where
  "recovered prog v s =
     (case s of (r, t) \<Rightarrow>
        let r1 = r\<lparr>lastPanic := Some v, panicStack := debugStack prog v\<rparr>;
            r2 = drawErrorScreen (fmtValue prog) (r1\<lparr>screen := []\<rparr>)
        in (r2\<lparr>shown := screen r2\<rparr>, t))"

definition Runtime_render ::
  "('a, 'f) program \<Rightarrow> 'a Runtime \<times> ('a, 'f) componentContext
     \<Rightarrow> 'a Runtime \<times> ('a, 'f) componentContext" where
  "Runtime_render prog s =
     (case s of (r, t) \<Rightarrow>
        let r0 = r\<lparr>screen := []\<rparr>
        in if lastPanic r0 \<noteq> None then
             (let r1 = drawErrorScreen (fmtValue prog) r0 in (r1\<lparr>shown := screen r1\<rparr>, t))
           else
             (case normalPass prog (r0, t) of
                Inr s1 \<Rightarrow> s1
              | Inl (v, s1) \<Rightarrow> recovered prog v s1))"

subsection \<open>The main loop\<close>

text \<open>
  One iteration of the loop of \<open>Run\<close> either renders (a value arrived on
  \<open>refreshChan\<close>) or handles an input event. What happens between two render passes,
  input handling and writes by background tasks, is a function on the state.
  \<open>passes\<close> lists the states at the end of the render passes of a run.
\<close>

datatype ('a, 'f) activity =
    RenderPass
  | Between "'a Runtime \<times> ('a, 'f) componentContext \<Rightarrow> 'a Runtime \<times> ('a, 'f) componentContext"

fun passes ::
  "('a, 'f) program \<Rightarrow> ('a, 'f) activity list \<Rightarrow> 'a Runtime \<times> ('a, 'f) componentContext
     \<Rightarrow> ('a Runtime \<times> ('a, 'f) componentContext) list" where
  "passes prog [] s = []"
| "passes prog (RenderPass # rest) s = Runtime_render prog s # passes prog rest (Runtime_render prog s)"
| "passes prog (Between f # rest) s = passes prog rest (f s)"

section \<open>Reference notions used in the statements\<close>

text \<open>
  The flex rule in the words of the specification: the fixed part is the sum of the
  measured heights of the children that are not flex-weighted plus \<open>(n - 1) * gap\<close>, the
  remaining height is floored at zero, and a flex-weighted child's share is
  \<open>floor(remaining / totalFlexWeight) * ownWeight\<close>.
\<close>

definition spec_fixedHeight :: "runewidth \<Rightarrow> node list \<Rightarrow> int \<Rightarrow> int \<Rightarrow> int" where
  "spec_fixedHeight lib cs w gap =
     sum_list (map (\<lambda>c. measureNodeHeight lib (Some c) w) (filter (\<lambda>c. \<not> isFlexChild c) cs))
       + (int (length cs) - 1) * gap"

definition spec_totalFlex :: "node list \<Rightarrow> int" where
  "spec_totalFlex cs = sum_list (map flexOf (filter isFlexChild cs))"

definition spec_flexShare :: "runewidth \<Rightarrow> node list \<Rightarrow> int \<Rightarrow> int \<Rightarrow> int \<Rightarrow> node \<Rightarrow> int" where
  "spec_flexShare lib cs w h gap c =
     (max 0 (h - spec_fixedHeight lib cs w gap) div spec_totalFlex cs) * flexOf c"

text \<open>A context that has a pointer handler registered.\<close>

definition hasMouseHandler :: "('a, 'f) componentContext \<Rightarrow> bool" where
  "hasMouseHandler t = (case t of componentContext i k c ch \<Rightarrow> mouseHandler c \<noteq> None)"

text \<open>
  Code outside the recover handler of \<open>render\<close> never assigns the two fields that
  record a panic.
\<close>

definition keepsPanic ::
  "('a Runtime \<times> ('a, 'f) componentContext \<Rightarrow> 'a Runtime \<times> ('a, 'f) componentContext) \<Rightarrow> bool" where
  "keepsPanic f \<longleftrightarrow>
     (\<forall>s. lastPanic (fst (f s)) = lastPanic (fst s) \<and> panicStack (fst (f s)) = panicStack (fst s))"


text \<open>
  What a cell of the terminal holds after a sequence of screen calls, as the recovery test
  of the repository reads it back from the simulation screen: the rune and the style of
  the last \<open>SetContent\<close> at the cell's position, if there was one.
\<close>

fun cellAt :: "event list \<Rightarrow> int \<Rightarrow> int \<Rightarrow> (rune \<times> tcellStyle) option" where
  "cellAt [] x y = None"
| "cellAt (e # es) x y =
     (case cellAt es x y of
        Some c \<Rightarrow> Some c
      | None \<Rightarrow> (case e of
                   SetContent x' y' r s \<Rightarrow> if x' = x \<and> y' = y then Some (r, s) else None
                 | _ \<Rightarrow> None))"
section \<open>Focus registry rebuilds\<close>

lemma Register_currentKey_nonempty:
  "currentKey fm \<noteq> [] \<Longrightarrow> currentKey (Register k c fm) = currentKey fm"
  by (simp add: Register_def Let_def)

lemma registerAll_currentKey_nonempty:
  "currentKey fm \<noteq> [] \<Longrightarrow> currentKey (registerAll ks fm) = currentKey fm"
  by (induction ks fm rule: registerAll.induct) (simp_all add: Register_currentKey_nonempty)

text \<open>
  A rebuild never moves a non-empty current key, whether or not that key is registered
  again: \<open>Reset\<close> keeps it and \<open>Register\<close> assigns it only when it is empty.
\<close>

lemma rebuild_keeps_currentKey:
  "currentKey fm \<noteq> [] \<Longrightarrow> currentKey (registerAll ks (Reset fm)) = currentKey fm"
  by (simp add: registerAll_currentKey_nonempty Reset_def)

text \<open>
  C2. The claim: after a rebuild the focused key is kept when it was registered again,
  and otherwise becomes the first key registered in the new set, or none. Evaluated on
  the registry in which \<open>A\<close> holds the focus and the next render registers only \<open>B\<close>:
  the current key is still \<open>A\<close>, which is not in the focusable list any more, so \<open>B\<close>
  is not focused. Removing \<open>A\<close> through \<open>Unregister\<close> does move the focus to \<open>B\<close>.
\<close>

theorem rebuild_stale_focus:
  "currentKey (registerAll [(''B'', 2)] (Reset (Register ''A'' 1 newFocusManager))) = ''A''
   \<and> focusable (registerAll [(''B'', 2)] (Reset (Register ''A'' 1 newFocusManager))) = [''B'']
   \<and> currentKey (Unregister ''A'' (Register ''B'' 2 (Register ''A'' 1 newFocusManager))) = ''B''"
  by (simp add: Register_def Reset_def Unregister_def newFocusManager_def Let_def)

section \<open>Effect dependency gating\<close>

lemma depsEqual_loop_all2:
  "length a = length b \<Longrightarrow> depsEqual_loop deq a b = list_all2 deq a b"
  by (induction a b rule: list_induct2) simp_all

text \<open>\<open>depsEqual\<close> holds exactly when the lists have equal length and are element-wise deep-equal.\<close>

lemma depsEqual_iff: "depsEqual deq a b \<longleftrightarrow> list_all2 deq a b"
  by (auto simp: depsEqual_def depsEqual_loop_all2 dest: list_all2_lengthD)

text \<open>
  C6. For the effect slot that the call addresses (the one at the context's current
  effect index): when the slot does not exist yet, the body is called and its cleanup
  stored; when the slot has run and the new dependencies are element-wise deep-equal to
  the stored ones, no closure is called and the slot is unchanged; when they differ, the
  stored cleanup (if any) is called once, then the body once, and the new cleanup and
  dependencies are stored.
\<close>

theorem UseEffect_gating:
  fixes c :: "('a, 'f) contextFields"
  shows
  "(effects c (effectIndex c) = None \<longrightarrow>
      snd (UseEffect deq c fn ds) = [CallEffect (fst fn)] \<and>
      effects (fst (UseEffect deq c fn ds)) (effectIndex c)
        = Some \<lparr>deps = ds, cleanup = snd fn, ran = True\<rparr>)
   \<and> (\<forall>s. effects c (effectIndex c) = Some s \<and> ran s \<and> list_all2 deq (deps s) ds \<longrightarrow>
      snd (UseEffect deq c fn ds) = [] \<and>
      effects (fst (UseEffect deq c fn ds)) (effectIndex c) = Some s)
   \<and> (\<forall>s. effects c (effectIndex c) = Some s \<and> ran s \<and> \<not> list_all2 deq (deps s) ds \<longrightarrow>
      snd (UseEffect deq c fn ds)
        = (case cleanup s of Some cl \<Rightarrow> [CallCleanup cl] | None \<Rightarrow> []) @ [CallEffect (fst fn)] \<and>
      effects (fst (UseEffect deq c fn ds)) (effectIndex c)
        = Some \<lparr>deps = ds, cleanup = snd fn, ran = True\<rparr>)"
  by (auto simp: UseEffect_def Let_def depsEqual_iff)

text \<open>
  Three renders of one context with dependencies \<open>[1]\<close>, \<open>[1]\<close>, \<open>[2]\<close>: body once, nothing,
  then the first cleanup followed by the third body.
\<close>

theorem UseEffect_gating_witness:
  "snd (UseEffect (=) (newContextFields :: (int, string) contextFields) (''body1'', Some ''cleanup1'') [1])
     = [CallEffect ''body1'']
   \<and> snd (UseEffect (=)
        (reset (fst (UseEffect (=) (newContextFields :: (int, string) contextFields)
                       (''body1'', Some ''cleanup1'') [1])))
        (''body2'', Some ''cleanup2'') [1]) = []
   \<and> snd (UseEffect (=)
        (reset (fst (UseEffect (=)
           (reset (fst (UseEffect (=) (newContextFields :: (int, string) contextFields)
                          (''body1'', Some ''cleanup1'') [1])))
           (''body2'', Some ''cleanup2'') [1])))
        (''body3'', Some ''cleanup3'') [2])
     = [CallCleanup ''cleanup1'', CallEffect ''body3'']"
proof -
  let ?c0 = "newContextFields :: (int, string) contextFields"
  let ?c1 = "reset (fst (UseEffect (=) ?c0 (''body1'', Some ''cleanup1'') [1]))"
  let ?c2 = "reset (fst (UseEffect (=) ?c1 (''body2'', Some ''cleanup2'') [1]))"
  let ?s = "\<lparr>deps = [1::int], cleanup = Some ''cleanup1'', ran = True\<rparr>"
  have e0: "effects ?c0 (effectIndex ?c0) = None"
    by (simp add: newContextFields_def)
  have e1: "effects ?c1 (effectIndex ?c1) = Some ?s"
    by (simp add: newContextFields_def reset_def UseEffect_def Let_def)
  have e2: "effects ?c2 (effectIndex ?c2) = Some ?s"
    by (simp add: newContextFields_def reset_def UseEffect_def Let_def depsEqual_def)
  have first: "snd (UseEffect (=) ?c0 (''body1'', Some ''cleanup1'') [1]) = [CallEffect ''body1'']"
    using UseEffect_gating [of ?c0 "(=)" "(''body1'', Some ''cleanup1'')" "[1]"] e0 by simp
  have second: "snd (UseEffect (=) ?c1 (''body2'', Some ''cleanup2'') [1]) = []"
    using UseEffect_gating [of ?c1 "(=)" "(''body2'', Some ''cleanup2'')" "[1]"] e1 by simp
  have third: "snd (UseEffect (=) ?c2 (''body3'', Some ''cleanup3'') [2])
                 = [CallCleanup ''cleanup1'', CallEffect ''body3'']"
    using UseEffect_gating [of ?c2 "(=)" "(''body3'', Some ''cleanup3'')" "[2]"] e2 by simp
  show ?thesis using first second third by simp
qed

section \<open>Pointer event dispatch\<close>

lemma sum_list_map_eq:
  "(\<And>x. x \<in> set xs \<Longrightarrow> f x = g x) \<Longrightarrow> sum_list (map f xs) = sum_list (map g xs)"
  by (induction xs) simp_all

lemma hasMouseHandler_simp:
  "hasMouseHandler (componentContext i k c ch) \<longleftrightarrow> mouseHandler c \<noteq> None"
  by (simp add: hasMouseHandler_def)

text \<open>One handler call per context that has a handler.\<close>

lemma dispatch_count:
  "length (dispatchMouseEvent t ev) = length (filter hasMouseHandler (contexts t))"
proof (induction t ev rule: dispatchMouseEvent.induct)
  case (1 i k c children ev)
  have "(\<Sum>kc\<leftarrow>children. length (dispatchMouseEvent (snd kc) ev))
      = (\<Sum>kc\<leftarrow>children. length (filter hasMouseHandler (contexts (snd kc))))"
    using 1 by (intro sum_list_map_eq) auto
  then show ?case
    by (cases "mouseHandler c") (simp_all add: length_concat filter_concat comp_def hasMouseHandler_simp)
qed

lemma dispatch_reaches:
  "componentContext i k c ch \<in> set (contexts t) \<Longrightarrow> mouseHandler c = Some hnd
     \<Longrightarrow> (hnd, if Contains (rect c) (MouseEvent.X ev) (MouseEvent.Y ev) then ev
              else ev\<lparr>Type := MouseEventMove\<rparr>) \<in> set (dispatchMouseEvent t ev)"
proof (induction t ev rule: dispatchMouseEvent.induct)
  case (1 i' k' c' children ev)
  show ?case
  proof (cases "componentContext i k c ch = componentContext i' k' c' children")
    case True
    then show ?thesis using 1(3) by simp
  next
    case False
    then obtain kc where kc: "kc \<in> set children" "componentContext i k c ch \<in> set (contexts (snd kc))"
      using 1(2) by auto
    then have "(hnd, if Contains (rect c) (MouseEvent.X ev) (MouseEvent.Y ev) then ev
                    else ev\<lparr>Type := MouseEventMove\<rparr>) \<in> set (dispatchMouseEvent (snd kc) ev)"
      using 1(1) 1(3) by blast
    then show ?thesis using kc(1) by (auto simp: Let_def)
  qed
qed

text \<open>
  C10. Every context of the tree that has a pointer handler gets one call of it, whether
  or not the point lies in its rectangle; in total there is one call per such context.
  The event passed has the coordinates and the button of the dispatched event, and its
  type is the original one when the rectangle contains the point and \<open>Move\<close> otherwise.
\<close>

theorem dispatchMouseEvent_broadcast:
  "(\<forall>i k c ch hnd. componentContext i k c ch \<in> set (contexts t) \<and> mouseHandler c = Some hnd \<longrightarrow>
      (\<exists>e. (hnd, e) \<in> set (dispatchMouseEvent t ev) \<and>
           MouseEvent.X e = MouseEvent.X ev \<and> MouseEvent.Y e = MouseEvent.Y ev \<and>
           Button e = Button ev \<and>
           Type e = (if Contains (rect c) (MouseEvent.X ev) (MouseEvent.Y ev) then Type ev
                     else MouseEventMove)))
   \<and> length (dispatchMouseEvent t ev) = length (filter hasMouseHandler (contexts t))"
proof (intro conjI allI impI)
  fix i k c ch hnd
  assume a: "componentContext i k c ch \<in> set (contexts t) \<and> mouseHandler c = Some hnd"
  let ?e = "if Contains (rect c) (MouseEvent.X ev) (MouseEvent.Y ev) then ev
            else ev\<lparr>Type := MouseEventMove\<rparr>"
  from a have a1: "componentContext i k c ch \<in> set (contexts t)"
    and a2: "mouseHandler c = Some hnd" by simp_all
  have "(hnd, ?e) \<in> set (dispatchMouseEvent t ev)"
    by (rule dispatch_reaches [OF a1 a2])
  then show "\<exists>e. (hnd, e) \<in> set (dispatchMouseEvent t ev) \<and>
           MouseEvent.X e = MouseEvent.X ev \<and> MouseEvent.Y e = MouseEvent.Y ev \<and>
           Button e = Button ev \<and>
           Type e = (if Contains (rect c) (MouseEvent.X ev) (MouseEvent.Y ev) then Type ev
                     else MouseEventMove)"
    by (intro exI [of _ ?e]) simp
next
  show "length (dispatchMouseEvent t ev) = length (filter hasMouseHandler (contexts t))"
    by (rule dispatch_count)
qed

text \<open>
  A root whose rectangle is empty with a child occupying the 5 by 5 square at the
  origin, both with handlers, and a click at (1, 1): the root's handler is called with a
  \<open>Move\<close> at (1, 1), the child's with the click.
\<close>

theorem dispatchMouseEvent_broadcast_witness:
  "dispatchMouseEvent
     (componentContext 0 ''root'' ((newContextFields :: (int, string) contextFields)\<lparr>mouseHandler := Some ''onRoot''\<rparr>)
        [(''a'', componentContext 1 ''a''
                  (newContextFields\<lparr>rect := \<lparr>X = 0, Y = 0, W = 5, H = 5\<rparr>,
                                     mouseHandler := Some ''onA''\<rparr>) [])])
     \<lparr>MouseEvent.X = 1, MouseEvent.Y = 1, Button = MouseButtonLeft, Type = MouseEventClick\<rparr>
   = [(''onRoot'', \<lparr>MouseEvent.X = 1, MouseEvent.Y = 1, Button = MouseButtonLeft, Type = MouseEventMove\<rparr>),
      (''onA'', \<lparr>MouseEvent.X = 1, MouseEvent.Y = 1, Button = MouseButtonLeft, Type = MouseEventClick\<rparr>)]
   \<and> (\<exists>e. (''onRoot'', e) \<in> set (dispatchMouseEvent
     (componentContext 0 ''root'' ((newContextFields :: (int, string) contextFields)\<lparr>mouseHandler := Some ''onRoot''\<rparr>)
        [(''a'', componentContext 1 ''a''
                  (newContextFields\<lparr>rect := \<lparr>X = 0, Y = 0, W = 5, H = 5\<rparr>,
                                     mouseHandler := Some ''onA''\<rparr>) [])])
     \<lparr>MouseEvent.X = 1, MouseEvent.Y = 1, Button = MouseButtonLeft, Type = MouseEventClick\<rparr>)
        \<and> Type e = MouseEventMove \<and> MouseEvent.X e = 1 \<and> MouseEvent.Y e = 1 \<and> Button e = MouseButtonLeft)"
proof -
  let ?ca = "(newContextFields :: (int, string) contextFields)
               \<lparr>rect := \<lparr>X = 0, Y = 0, W = 5, H = 5\<rparr>, mouseHandler := Some ''onA''\<rparr>"
  let ?cr = "(newContextFields :: (int, string) contextFields)\<lparr>mouseHandler := Some ''onRoot''\<rparr>"
  let ?t = "componentContext 0 ''root'' ?cr [(''a'', componentContext 1 ''a'' ?ca [])]"
  let ?ev = "\<lparr>MouseEvent.X = 1, MouseEvent.Y = 1, Button = MouseButtonLeft, Type = MouseEventClick\<rparr>"
  have mem: "componentContext 0 ''root'' ?cr [(''a'', componentContext 1 ''a'' ?ca [])] \<in> set (contexts ?t)
             \<and> mouseHandler ?cr = Some ''onRoot''"
    by simp
  have out: "\<not> Contains (rect ?cr) (MouseEvent.X ?ev) (MouseEvent.Y ?ev)"
    by (simp add: Contains_def newContextFields_def)
  have "\<exists>e. (''onRoot'', e) \<in> set (dispatchMouseEvent ?t ?ev) \<and>
           MouseEvent.X e = MouseEvent.X ?ev \<and> MouseEvent.Y e = MouseEvent.Y ?ev \<and>
           Button e = Button ?ev \<and>
           Type e = (if Contains (rect ?cr) (MouseEvent.X ?ev) (MouseEvent.Y ?ev) then Type ?ev
                     else MouseEventMove)"
    using dispatchMouseEvent_broadcast [of ?t ?ev] mem by blast
  then have part2: "\<exists>e. (''onRoot'', e) \<in> set (dispatchMouseEvent ?t ?ev)
        \<and> Type e = MouseEventMove \<and> MouseEvent.X e = 1 \<and> MouseEvent.Y e = 1 \<and> Button e = MouseButtonLeft"
    using out by auto
  have part1: "dispatchMouseEvent ?t ?ev
     = [(''onRoot'', \<lparr>MouseEvent.X = 1, MouseEvent.Y = 1, Button = MouseButtonLeft, Type = MouseEventMove\<rparr>),
        (''onA'', \<lparr>MouseEvent.X = 1, MouseEvent.Y = 1, Button = MouseButtonLeft, Type = MouseEventClick\<rparr>)]"
    by (simp add: Contains_def newContextFields_def)
  show ?thesis using part1 part2 by blast
qed

section \<open>Measure and render of wrapped text\<close>

lemma measureWrap_mono: "lines \<le> measureWrap rw rs w cx lines"
proof (induction rs arbitrary: cx lines)
  case Nil
  then show ?case by simp
next
  case (Cons r rs)
  have a: "lines + 1 + 1 \<le> measureWrap rw rs w 0 (lines + 1 + 1)" by (rule Cons.IH)
  have b: "lines + 1 \<le> measureWrap rw rs w 0 (lines + 1)" by (rule Cons.IH)
  have c: "lines + 1 \<le> measureWrap rw rs w (0 + rw r) (lines + 1)" by (rule Cons.IH)
  have d: "lines \<le> measureWrap rw rs w (cx + rw r) lines" by (rule Cons.IH)
  show ?case using a b c d by (simp add: Let_def)
qed

text \<open>
  The drawing loop started at column \<open>x + cx\<close> with the same line count as the measuring
  loop at column \<open>cx\<close> returns the measured line count, provided the measured count fits
  in the granted height: its two exits on \<open>lines > height\<close> are then never taken.
\<close>

lemma renderWrap_lines:
  "measureWrap rw rs w cx lines \<le> h \<Longrightarrow>
     fst (renderWrap rw style rs x w h (x + cx) cy lines) = measureWrap rw rs w cx lines"
proof (induction rs arbitrary: cx cy lines)
  case Nil
  then show ?case by simp
next
  case (Cons r rs)
  let ?over = "cx + rw r > w"
  let ?cx1 = "if ?over then 0 else cx"
  let ?l1 = "if ?over then lines + 1 else lines"
  let ?cy1 = "if ?over then cy + 1 else cy"
  show ?case
  proof (cases "r = 10")
    case True
    then have m: "measureWrap rw (r # rs) w cx lines = measureWrap rw rs w 0 (?l1 + 1)"
      by (simp add: Let_def)
    have le: "?l1 + 1 \<le> h"
      using Cons.prems m measureWrap_mono[of "?l1 + 1" rw rs w 0] by simp
    have ih: "fst (renderWrap rw style rs x w h (x + 0) (?cy1 + 1) (?l1 + 1))
                = measureWrap rw rs w 0 (?l1 + 1)"
      using Cons.prems m by (intro Cons.IH) simp
    show ?thesis using True le ih m by (simp add: Let_def)
  next
    case False
    then have m: "measureWrap rw (r # rs) w cx lines = measureWrap rw rs w (?cx1 + rw r) ?l1"
      by (simp add: Let_def)
    have le: "?l1 \<le> h"
      using Cons.prems m measureWrap_mono[of ?l1 rw rs w "?cx1 + rw r"] by simp
    have ih: "fst (renderWrap rw style rs x w h (x + (?cx1 + rw r)) ?cy1 ?l1)
                = measureWrap rw rs w (?cx1 + rw r) ?l1"
      using Cons.prems m by (intro Cons.IH) simp
    show ?thesis using False le ih m
      by (simp add: Let_def split: prod.splits) (auto simp: algebra_simps)
  qed
qed

text \<open>
  C8. For a text node with wrapping enabled and a positive width, whenever the height
  granted to \<open>render\<close> is at least the line count that \<open>measureNodeHeight\<close> computes
  for that width, \<open>render\<close> returns exactly that line count. The widths of the runes are
  those of the width function in both passes, whatever that function is.
\<close>

theorem wrap_measure_render_agree:
  assumes "0 < w"
    and "measureNodeHeight lib (Some (textNode content st True)) w \<le> h"
  shows "map_option fst (render lib (textNode content st True) x y w h)
           = Some (measureNodeHeight lib (Some (textNode content st True)) w)"
proof -
  have m: "measureNodeHeight lib (Some (textNode content st True)) w
             = measureWrap (RuneWidth lib) content w 0 1"
    using assms(1) by simp
  have "1 \<le> measureWrap (RuneWidth lib) content w 0 1" by (rule measureWrap_mono)
  then have hpos: "0 < h" using assms(2) m by simp
  have "fst (renderWrap (RuneWidth lib) (toTcell st) content x w h (x + 0) y 1)
          = measureWrap (RuneWidth lib) content w 0 1"
    using assms(2) m by (intro renderWrap_lines) simp
  then show ?thesis using hpos m
    by (simp add: textNode_render_def Let_def)
qed

text \<open>
  The five letters \<open>abcde\<close> in width 2, with the wide rune U+4E2D in between in the
  second case: three lines, and four with the wide rune, in a grant of five rows.
\<close>

theorem wrap_measure_render_agree_witness:
  "(0::int) < 2
   \<and> measureNodeHeight \<lparr>RuneWidth = (\<lambda>r. if r < 128 then 1 else 2), StringWidth = (\<lambda>s. int (length s))\<rparr>
        (Some (textNode [97, 98, 0x4E2D, 99, 100, 101] defaultStyle True)) 2 \<le> 5
   \<and> map_option fst
        (render \<lparr>RuneWidth = (\<lambda>r. if r < 128 then 1 else 2), StringWidth = (\<lambda>s. int (length s))\<rparr>
           (textNode [97, 98, 0x4E2D, 99, 100, 101] defaultStyle True) 0 0 2 5) = Some 4"
  using wrap_measure_render_agree [of 2
          "\<lparr>RuneWidth = (\<lambda>r. if r < 128 then 1 else 2), StringWidth = (\<lambda>s. int (length s))\<rparr>"
          "[97, 98, 0x4E2D, 99, 100, 101]" defaultStyle 5 0 0]
  by (simp add: Let_def)

section \<open>Heights returned by render\<close>

text \<open>
  C1. The claim: every render returns a used height that is at most the granted height,
  in particular a box whose fixed style height exceeds the grant. Evaluated on a box
  around the text \<open>hi\<close> with style height 10, rendered in 20 columns and 5 rows: the
  box draws within the 5 rows and returns 10. The same box with a top padding of 5, which
  leaves no content area, takes the other return and yields the clamped height 5. The
  wrapped text \<open>abc\<close> in one column and two rows draws two rows and returns 3: its
  loop counts the line it breaks off at.
\<close>

theorem boxNode_render_exceeds_grant:
  "render \<lparr>RuneWidth = (\<lambda>r. 1), StringWidth = (\<lambda>s. int (length s))\<rparr>
     (boxNode (Some (textNode [104, 105] defaultStyle False)) (defaultStyle\<lparr>height := 10\<rparr>)) 0 0 20 5
     = Some (10, [SetContent 0 0 104 StyleDefault, SetContent 1 0 105 StyleDefault])
   \<and> render \<lparr>RuneWidth = (\<lambda>r. 1), StringWidth = (\<lambda>s. int (length s))\<rparr>
     (boxNode (Some (textNode [104, 105] defaultStyle False))
        (defaultStyle\<lparr>height := 10, paddingTop := 5\<rparr>)) 0 0 20 5
     = Some (5, [])
   \<and> render \<lparr>RuneWidth = (\<lambda>r. 1), StringWidth = (\<lambda>s. int (length s))\<rparr>
     (textNode [97, 98, 99] defaultStyle True) 0 0 1 2
     = Some (3, [SetContent 0 0 97 StyleDefault, SetContent 0 1 98 StyleDefault])"
  by code_simp

section \<open>Flex distribution in a vertical stack\<close>

text \<open>The first pass computes the fixed height and the flex total of the specification.\<close>

lemma vstack_fixed_and_flex_sums:
  "vstack_fixed_and_flex lib cs w fixedHeight totalFlex
     = (fixedHeight
          + sum_list (map (\<lambda>c. measureNodeHeight lib (Some c) w) (filter (\<lambda>c. \<not> isFlexChild c) cs)),
        totalFlex + sum_list (map flexOf (filter isFlexChild cs)))"
  by (induction cs arbitrary: fixedHeight totalFlex) simp_all

lemma first_pass_spec:
  "vstack_fixed_and_flex lib cs w ((int (length cs) - 1) * gap) 0
     = (spec_fixedHeight lib cs w gap, spec_totalFlex cs)"
  by (simp add: vstack_fixed_and_flex_sums spec_fixedHeight_def spec_totalFlex_def)

lemma flex_weight_pos: "isFlexChild c \<Longrightarrow> 0 < flexOf c"
  by (simp add: isFlexChild_def flexOf_def split: option.splits)

lemma spec_totalFlex_nonneg: "0 \<le> spec_totalFlex cs"
  unfolding spec_totalFlex_def
  by (induction cs) (auto dest: flex_weight_pos)

lemma spec_totalFlex_pos:
  "c \<in> set cs \<Longrightarrow> isFlexChild c \<Longrightarrow> 0 < spec_totalFlex cs"
  unfolding spec_totalFlex_def
proof (induction cs)
  case Nil
  then show ?case by simp
next
  case (Cons a cs)
  have nn: "0 \<le> sum_list (map flexOf (filter isFlexChild cs))"
    using spec_totalFlex_nonneg [of cs] by (simp add: spec_totalFlex_def)
  show ?case
  proof (cases "c = a")
    case True
    then show ?thesis using Cons.prems(2) nn flex_weight_pos [of a] by simp
  next
    case False
    then have "0 < sum_list (map flexOf (filter isFlexChild cs))"
      using Cons by simp
    then show ?thesis using flex_weight_pos [of a] by (cases "isFlexChild a") auto
  qed
qed

lemma go_div_nonneg: "0 \<le> a \<Longrightarrow> 0 < b \<Longrightarrow> go_div a b = a div b"
  by (cases "a = 0") (simp_all add: go_div_def)

text \<open>
  The second loop hands every child it reaches its share (the flex share for a
  flex-weighted child, the measured height otherwise) cut down to the rows left between
  the child's position and the bottom of the stack.
\<close>

lemma vstack_render_children_grants:
  "vstack_render_children lib cs x y w h gap unit cy tot = Some (t, es, gs) \<Longrightarrow>
     length gs \<le> length cs \<and>
     (\<forall>i < length gs.
        snd (gs ! i) =
          min (if isFlexChild (cs ! i) then unit * flexOf (cs ! i)
               else measureNodeHeight lib (Some (cs ! i)) w)
              (y + h - fst (gs ! i)))"
proof (induction cs arbitrary: cy tot t es gs)
  case Nil
  then show ?case by simp
next
  case (Cons c rest)
  show ?case
  proof (cases "cy \<ge> y + h")
    case True
    then have "gs = []" using Cons.prems by simp
    then show ?thesis by simp
  next
    case False
    let ?ch0 = "if isFlexChild c then unit * flexOf c else measureNodeHeight lib (Some c) w"
    let ?ch = "if ?ch0 > (y + h) - cy then (y + h) - cy else ?ch0"
    from Cons.prems False obtain u0 es0 where r: "render lib c x cy w ?ch = Some (u0, es0)"
      by (auto simp: Let_def split: option.splits)
    let ?u = "if u0 = 0 \<and> ?ch > 0 then ?ch else u0"
    let ?sp = "if rest \<noteq> [] then gap else 0"
    from Cons.prems False r obtain t' es' gs' where
      rec: "vstack_render_children lib rest x y w h gap unit (cy + ?u + ?sp) (tot + ?u + ?sp)
              = Some (t', es', gs')"
      and gs: "gs = (cy, ?ch) # gs'"
      by (auto simp: Let_def split: option.splits)
    have ih: "length gs' \<le> length rest \<and>
       (\<forall>i < length gs'.
          snd (gs' ! i) =
            min (if isFlexChild (rest ! i) then unit * flexOf (rest ! i)
                 else measureNodeHeight lib (Some (rest ! i)) w)
                (y + h - fst (gs' ! i)))"
      by (rule Cons.IH [OF rec])
    have len: "length gs \<le> length (c # rest)" using ih gs by simp
    have "\<forall>i < length gs.
        snd (gs ! i) =
          min (if isFlexChild ((c # rest) ! i) then unit * flexOf ((c # rest) ! i)
               else measureNodeHeight lib (Some ((c # rest) ! i)) w)
              (y + h - fst (gs ! i))"
    proof (intro allI impI)
      fix i assume i: "i < length gs"
      show "snd (gs ! i) =
          min (if isFlexChild ((c # rest) ! i) then unit * flexOf ((c # rest) ! i)
               else measureNodeHeight lib (Some ((c # rest) ! i)) w)
              (y + h - fst (gs ! i))"
      proof (cases i)
        case 0
        then show ?thesis using gs by (simp add: min_def)
      next
        case (Suc j)
        then have "j < length gs'" using i gs by simp
        then show ?thesis using ih Suc gs by simp
      qed
    qed
    then show ?thesis using len by blast
  qed
qed


text \<open>
  C3, as stated, fails. A stack of height 10 holding a horizontal stack of one spacer
  followed by a spacer: the horizontal stack measures 0 but its render returns at least
  one row, so the spacer is placed at row 1 and handed the 9 rows left, not its share
  \<open>floor(10 / 1) * 1 = 10\<close>.
\<close>

theorem vstack_flex_share_counterexample:
  "vstackNode_render \<lparr>RuneWidth = (\<lambda>r. 1), StringWidth = (\<lambda>s. int (length s))\<rparr>
     [Some (hstackNode [Some spacerNode] defaultStyle 0 AlignLeft), Some spacerNode]
     defaultStyle 0 AlignLeft 0 0 20 10
     = Some (10, [], [(0, 0), (1, 9)])
   \<and> isFlexChild spacerNode
   \<and> spec_flexShare \<lparr>RuneWidth = (\<lambda>r. 1), StringWidth = (\<lambda>s. int (length s))\<rparr>
        [hstackNode [Some spacerNode] defaultStyle 0 AlignLeft, spacerNode] 20 10 0 spacerNode = 10"
  by (simp add: Let_def defaultStyle_def isFlexChild_def flexOf_def go_div_def
        spec_flexShare_def spec_fixedHeight_def spec_totalFlex_def)

text \<open>
  C3, amended. Every flex-weighted child that the second loop of a vertical stack reaches
  is handed \<open>floor(remaining / totalFlexWeight) * ownWeight\<close> rows cut down to the rows
  left between its position and the bottom of the stack, where \<open>remaining\<close> is the inner
  height minus the measured heights of the other children and the gaps, floored at zero.
  Two spacers in height 10 are handed 5 and 5 rows; weights 1, 1, 2 in height 8 are
  handed 2, 2 and 4.
\<close>

theorem vstack_flex_distribution:
  "(\<forall>t es gs. vstackNode_render lib children0 st gap justify x y w h = Some (t, es, gs) \<longrightarrow>
      length gs \<le> length (nonNil children0) \<and>
      (\<forall>i < length gs. isFlexChild (nonNil children0 ! i) \<longrightarrow>
         snd (gs ! i) =
           min (spec_flexShare lib (nonNil children0) (w - (paddingLeft st + paddingRight st))
                  (h - (paddingTop st + paddingBottom st)) gap (nonNil children0 ! i))
               (y + paddingTop st + (h - (paddingTop st + paddingBottom st)) - fst (gs ! i))))
   \<and> map_option (\<lambda>r. map snd (snd (snd r)))
        (vstackNode_render lib [Some spacerNode, Some spacerNode] defaultStyle 0 AlignLeft 0 0 20 10)
       = Some [5, 5]
   \<and> map_option (\<lambda>r. map snd (snd (snd r)))
        (vstackNode_render lib
           [Some spacerNode, Some spacerNode, Some (boxNode None (defaultStyle\<lparr>flex := 2\<rparr>))]
           defaultStyle 0 AlignLeft 0 0 20 8)
       = Some [2, 2, 4]"
proof (intro conjI allI impI)
  fix t es gs
  assume r: "vstackNode_render lib children0 st gap justify x y w h = Some (t, es, gs)"
  let ?cs = "nonNil children0"
  let ?w = "w - (paddingLeft st + paddingRight st)"
  let ?h = "h - (paddingTop st + paddingBottom st)"
  let ?y = "y + paddingTop st"
  let ?rem = "max 0 (?h - spec_fixedHeight lib ?cs ?w gap)"
  let ?unit = "if spec_totalFlex ?cs > 0 then go_div ?rem (spec_totalFlex ?cs) else 0"
  show "length gs \<le> length ?cs"
  proof (cases "children0 = [] \<or> ?w \<le> 0 \<or> ?h \<le> 0 \<or> ?cs = []")
    case True
    then have "gs = []" using r by (auto simp: Let_def split: if_splits)
    then show ?thesis by simp
  next
    case False
    then obtain cy where
      "vstack_render_children lib ?cs (x + paddingLeft st) ?y ?w ?h gap ?unit cy 0 = Some (t, es, gs)"
      using r by (simp add: Let_def first_pass_spec max_def split: if_splits)
    then show ?thesis using vstack_render_children_grants by blast
  qed
  fix i assume i: "i < length gs" and fl: "isFlexChild (?cs ! i)"
  show "snd (gs ! i) = min (spec_flexShare lib ?cs ?w ?h gap (?cs ! i)) (?y + ?h - fst (gs ! i))"
  proof (cases "children0 = [] \<or> ?w \<le> 0 \<or> ?h \<le> 0 \<or> ?cs = []")
    case True
    then have "gs = []" using r by (auto simp: Let_def split: if_splits)
    then show ?thesis using i by simp
  next
    case False
    then obtain cy where
      loop: "vstack_render_children lib ?cs (x + paddingLeft st) ?y ?w ?h gap ?unit cy 0 = Some (t, es, gs)"
      using r by (simp add: Let_def first_pass_spec max_def split: if_splits)
    have g: "length gs \<le> length ?cs"
      and v: "snd (gs ! i) = min (if isFlexChild (?cs ! i) then ?unit * flexOf (?cs ! i)
                 else measureNodeHeight lib (Some (?cs ! i)) ?w) (?y + ?h - fst (gs ! i))"
      using vstack_render_children_grants [OF loop] i by simp_all
    have "?cs ! i \<in> set ?cs" using i g by simp
    then have pos: "0 < spec_totalFlex ?cs" using fl by (rule spec_totalFlex_pos)
    then have "?unit = ?rem div spec_totalFlex ?cs"
      by (simp add: go_div_nonneg)
    then show ?thesis using v fl by (simp add: spec_flexShare_def)
  qed
next
  show "map_option (\<lambda>r. map snd (snd (snd r)))
        (vstackNode_render lib [Some spacerNode, Some spacerNode] defaultStyle 0 AlignLeft 0 0 20 10)
       = Some [5, 5]"
    by (simp add: Let_def defaultStyle_def isFlexChild_def flexOf_def go_div_def)
next
  show "map_option (\<lambda>r. map snd (snd (snd r)))
        (vstackNode_render lib
           [Some spacerNode, Some spacerNode, Some (boxNode None (defaultStyle\<lparr>flex := 2\<rparr>))]
           defaultStyle 0 AlignLeft 0 0 20 8)
       = Some [2, 2, 4]"
    by (simp add: Let_def defaultStyle_def isFlexChild_def flexOf_def go_div_def)
qed


text \<open>The weight-2 box of the second example: its share is 4 and 4 rows are left at row 4.\<close>

theorem vstack_flex_distribution_witness:
  "vstackNode_render \<lparr>RuneWidth = (\<lambda>r. 1), StringWidth = (\<lambda>s. int (length s))\<rparr>
     [Some spacerNode, Some spacerNode, Some (boxNode None (defaultStyle\<lparr>flex := 2\<rparr>))]
     defaultStyle 0 AlignLeft 0 0 20 8
     = Some (8, [], [(0, 2), (2, 2), (4, 4)])
   \<and> isFlexChild (boxNode None (defaultStyle\<lparr>flex := 2\<rparr>))
   \<and> (4 :: int)
       = min (spec_flexShare \<lparr>RuneWidth = (\<lambda>r. 1), StringWidth = (\<lambda>s. int (length s))\<rparr>
                [spacerNode, spacerNode, boxNode None (defaultStyle\<lparr>flex := 2\<rparr>)] 20 8 0
                (boxNode None (defaultStyle\<lparr>flex := 2\<rparr>)))
             (8 - 4)"
proof -
  let ?lib = "\<lparr>RuneWidth = (\<lambda>r. 1), StringWidth = (\<lambda>s. int (length s))\<rparr>"
  let ?box = "boxNode None (defaultStyle\<lparr>flex := 2\<rparr>)"
  let ?cs0 = "[Some spacerNode, Some spacerNode, Some ?box]"
  have run: "vstackNode_render ?lib ?cs0 defaultStyle 0 AlignLeft 0 0 20 8
               = Some (8, [], [(0, 2), (2, 2), (4, 4)])"
    by (simp add: Let_def defaultStyle_def isFlexChild_def flexOf_def go_div_def)
  have fl: "isFlexChild ?box"
    by (simp add: isFlexChild_def defaultStyle_def)
  have all: "\<forall>i < length [(0::int, 2::int), (2, 2), (4, 4)]. isFlexChild (nonNil ?cs0 ! i) \<longrightarrow>
         snd ([(0::int, 2::int), (2, 2), (4, 4)] ! i) =
           min (spec_flexShare ?lib (nonNil ?cs0) (20 - (paddingLeft defaultStyle + paddingRight defaultStyle))
                  (8 - (paddingTop defaultStyle + paddingBottom defaultStyle)) 0 (nonNil ?cs0 ! i))
               (0 + paddingTop defaultStyle + (8 - (paddingTop defaultStyle + paddingBottom defaultStyle))
                  - fst ([(0::int, 2::int), (2, 2), (4, 4)] ! i))"
    using vstack_flex_distribution [of ?lib ?cs0 defaultStyle 0 AlignLeft 0 0 20 8] run by blast
  have "2 < length [(0::int, 2::int), (2, 2), (4, 4)]" by simp
  with all have "isFlexChild (nonNil ?cs0 ! 2) \<longrightarrow>
         snd ([(0::int, 2::int), (2, 2), (4, 4)] ! 2) =
           min (spec_flexShare ?lib (nonNil ?cs0) (20 - (paddingLeft defaultStyle + paddingRight defaultStyle))
                  (8 - (paddingTop defaultStyle + paddingBottom defaultStyle)) 0 (nonNil ?cs0 ! 2))
               (0 + paddingTop defaultStyle + (8 - (paddingTop defaultStyle + paddingBottom defaultStyle))
                  - fst ([(0::int, 2::int), (2, 2), (4, 4)] ! 2))"
    by blast
  then have "(4 :: int) = min (spec_flexShare ?lib [spacerNode, spacerNode, ?box] 20 8 0 ?box) (8 - 4)"
    using fl by (simp add: defaultStyle_def)
  then show ?thesis using run fl by simp
qed

section \<open>Scroll nodes: auto-tail and clipping\<close>









section \<open>Fault containment at the render boundary\<close>

subsection \<open>What the diagnostic screen shows\<close>

text \<open>
  Reading a cell back: of two drawings in a row the later one decides where it writes;
  what is read was written, and where there was a write something is read.
\<close>

lemma cellAt_append:
  "cellAt (a @ b) x y = (case cellAt b x y of Some c \<Rightarrow> Some c | None \<Rightarrow> cellAt a x y)"
  by (induction a) (auto split: option.splits event.splits)

lemma cellAt_Some_mem:
  "cellAt es x y = Some (r, s) \<Longrightarrow> SetContent x y r s \<in> set es"
  by (induction es) (auto split: option.splits event.splits if_splits)

lemma cellAt_mem_Some:
  "SetContent x y r s \<in> set es \<Longrightarrow> cellAt es x y \<noteq> None"
  by (induction es) (auto split: option.splits event.splits if_splits)

lemma cellAt_other_rows:
  "(\<And>e. e \<in> set es \<Longrightarrow> \<exists>x' y' r s. e = SetContent x' y' r s \<and> y' \<noteq> y) \<Longrightarrow> cellAt es x y = None"
proof (induction es)
  case Nil
  then show ?case by simp
next
  case (Cons e es)
  have "cellAt es x y = None" using Cons by simp
  moreover obtain x' y' r s where "e = SetContent x' y' r s" "y' \<noteq> y"
    using Cons.prems [of e] by auto
  ultimately show ?case by simp
qed

text \<open>
  \<open>drawText\<close> writes the runes of its text in one row and one style, each at the column
  given by the byte offset of the rune, so that later runes lie strictly to the right.
\<close>

lemma RuneLen_pos: "0 < RuneLen r"
  by (simp add: RuneLen_def)

lemma drawText_from_events:
  "e \<in> set (drawText_from i x y ts style) \<Longrightarrow> \<exists>col r. e = SetContent col y r style \<and> x + i \<le> col"
proof (induction ts arbitrary: i)
  case Nil
  then show ?case by simp
next
  case (Cons ru rest)
  then consider "e = SetContent (x + i) y ru style" | "e \<in> set (drawText_from (i + RuneLen ru) x y rest style)"
    by auto
  then show ?case
  proof cases
    case 1
    then show ?thesis by simp
  next
    case 2
    then obtain col r where "e = SetContent col y r style" "x + (i + RuneLen ru) \<le> col"
      using Cons.IH by blast
    then show ?thesis using RuneLen_pos [of ru] by auto
  qed
qed

lemma drawText_from_before:
  "col < x + i \<Longrightarrow> cellAt (drawText_from i x y ts style) col row = None"
proof (induction ts arbitrary: i)
  case Nil
  then show ?case by simp
next
  case (Cons ru rest)
  have "col < x + (i + RuneLen ru)" using Cons.prems RuneLen_pos [of ru] by simp
  then have "cellAt (drawText_from (i + RuneLen ru) x y rest style) col row = None"
    by (rule Cons.IH)
  then show ?case using Cons.prems by simp
qed

lemma drawText_from_cell:
  "k < length ts \<Longrightarrow>
     cellAt (drawText_from i x y ts style) (x + i + len (take k ts)) y = Some (ts ! k, style)"
proof (induction ts arbitrary: i k)
  case Nil
  then show ?case by simp
next
  case (Cons ru rest)
  show ?case
  proof (cases k)
    case 0
    have "cellAt (drawText_from (i + RuneLen ru) x y rest style) (x + i) y = None"
      by (rule drawText_from_before) (use RuneLen_pos [of ru] in simp)
    then show ?thesis using 0 by (simp add: len_def)
  next
    case (Suc j)
    then have j: "j < length rest" using Cons.prems by simp
    have "cellAt (drawText_from (i + RuneLen ru) x y rest style) (x + (i + RuneLen ru) + len (take j rest)) y
            = Some (rest ! j, style)"
      by (rule Cons.IH [OF j])
    then show ?thesis using Suc by (simp add: len_def add.assoc)
  qed
qed

lemma drawText_cell:
  "k < length ts \<Longrightarrow> cellAt (drawText x y ts style) (x + len (take k ts)) y = Some (ts ! k, style)"
  using drawText_from_cell [of k ts 0 x y style] by (simp add: drawText_def)

lemma drawText_events:
  "e \<in> set (drawText x y ts style) \<Longrightarrow> \<exists>col r. e = SetContent col y r style"
  using drawText_from_events [of e 0 x y ts style] by (auto simp: drawText_def)

text \<open>The stack trace is drawn from row 7 downwards.\<close>

lemma drawStackLines_events:
  "0 \<le> i \<Longrightarrow> e \<in> set (drawStackLines i h ls style) \<Longrightarrow> \<exists>col row r. e = SetContent col row r style \<and> 7 \<le> row"
proof (induction ls arbitrary: i)
  case Nil
  then show ?case by simp
next
  case (Cons l ls)
  show ?case
  proof (cases "i > h - 10")
    case True
    then show ?thesis using Cons.prems by simp
  next
    case False
    then consider "e \<in> set (drawText 2 (7 + i) l style)" | "e \<in> set (drawStackLines (i + 1) h ls style)"
      using Cons.prems by auto
    then show ?thesis
    proof cases
      case 1
      then show ?thesis using drawText_events [of e 2 "7 + i" l style] Cons.prems(1) by auto
    next
      case 2
      moreover have "0 \<le> i + 1" using Cons.prems(1) by simp
      ultimately show ?thesis using Cons.IH by blast
    qed
  qed
qed

lemma len_ascii:
  "\<forall>r \<in> set s. r < 0x80 \<Longrightarrow> len s = int (length s)"
  unfolding len_def by (induction s) (simp_all add: RuneLen_def)

lemma str_ascii: "\<forall>c \<in> set s. of_char c < (128 :: nat) \<Longrightarrow> \<forall>r \<in> set (str s). r < 0x80"
  by (auto simp: str_def)


text \<open>
  The diagnostic screen, part by part: every call has the red background and the white
  foreground, the fill covers every cell of the terminal, and the title, the message and
  the footer are read back where no later part overwrites them. The footer, in row
  \<open>h - 2\<close>, is drawn last: it overwrites the title when \<open>h = 4\<close> and the message when
  \<open>h = 6\<close>.
\<close>

lemma errorScreen_parts:
  "errorScreen f (w, h) pv stack =
     concat (map (\<lambda>y. map (\<lambda>x. SetContent x y 32 (StyleDefault\<lparr>tbg := ColorRed, tfg := ColorWhite\<rparr>)) [0..w - 1]) [0..h - 1])
     @ (drawText (go_div (w - 22) 2) 2 (str ''  REGO RUNTIME PANIC  '')
          (StyleDefault\<lparr>tbg := ColorRed, tfg := ColorWhite, tbold := True\<rparr>)
        @ (drawText 2 4 (str ''Error: '' @ f pv) (StyleDefault\<lparr>tbg := ColorRed, tfg := ColorWhite\<rparr>)
           @ (drawText 2 6 (str ''Stack Trace:'') (StyleDefault\<lparr>tbg := ColorRed, tfg := ColorWhite, tunderline := True\<rparr>)
              @ (drawStackLines 0 h (splitLines stack) (StyleDefault\<lparr>tbg := ColorRed, tfg := ColorWhite\<rparr>)
                 @ drawText (go_div (w - 20) 2) (h - 2) (str ''Press Ctrl+C to quit'')
                     (StyleDefault\<lparr>tbg := ColorRed, tfg := ColorWhite, tdim := True\<rparr>)))))"
  by (simp add: errorScreen_def Let_def len_def str_def RuneLen_def)

lemma errorScreen_styles:
  assumes "e \<in> set (errorScreen f sz pv stack)"
  shows "\<exists>x y r s. e = SetContent x y r s \<and> tbg s = ColorRed \<and> tfg s = ColorWhite"
proof -
  obtain w h where sz: "sz = (w, h)" by (cases sz)
  have "e \<in> set (concat (map (\<lambda>y. map (\<lambda>x. SetContent x y 32 (StyleDefault\<lparr>tbg := ColorRed, tfg := ColorWhite\<rparr>)) [0..w - 1]) [0..h - 1]))
     \<or> e \<in> set (drawText (go_div (w - 22) 2) 2 (str ''  REGO RUNTIME PANIC  '')
          (StyleDefault\<lparr>tbg := ColorRed, tfg := ColorWhite, tbold := True\<rparr>))
     \<or> e \<in> set (drawText 2 4 (str ''Error: '' @ f pv) (StyleDefault\<lparr>tbg := ColorRed, tfg := ColorWhite\<rparr>))
     \<or> e \<in> set (drawText 2 6 (str ''Stack Trace:'') (StyleDefault\<lparr>tbg := ColorRed, tfg := ColorWhite, tunderline := True\<rparr>))
     \<or> e \<in> set (drawStackLines 0 h (splitLines stack) (StyleDefault\<lparr>tbg := ColorRed, tfg := ColorWhite\<rparr>))
     \<or> e \<in> set (drawText (go_div (w - 20) 2) (h - 2) (str ''Press Ctrl+C to quit'')
                     (StyleDefault\<lparr>tbg := ColorRed, tfg := ColorWhite, tdim := True\<rparr>))"
    using assms unfolding sz errorScreen_parts by simp
  then show ?thesis
  proof (elim disjE)
    assume "e \<in> set (concat (map (\<lambda>y. map (\<lambda>x. SetContent x y 32 (StyleDefault\<lparr>tbg := ColorRed, tfg := ColorWhite\<rparr>)) [0..w - 1]) [0..h - 1]))"
    then show ?thesis by auto
  next
    assume "e \<in> set (drawText (go_div (w - 22) 2) 2 (str ''  REGO RUNTIME PANIC  '')
          (StyleDefault\<lparr>tbg := ColorRed, tfg := ColorWhite, tbold := True\<rparr>))"
    from drawText_events [OF this] show ?thesis by auto
  next
    assume "e \<in> set (drawText 2 4 (str ''Error: '' @ f pv) (StyleDefault\<lparr>tbg := ColorRed, tfg := ColorWhite\<rparr>))"
    from drawText_events [OF this] show ?thesis by auto
  next
    assume "e \<in> set (drawText 2 6 (str ''Stack Trace:'') (StyleDefault\<lparr>tbg := ColorRed, tfg := ColorWhite, tunderline := True\<rparr>))"
    from drawText_events [OF this] show ?thesis by auto
  next
    assume "e \<in> set (drawStackLines 0 h (splitLines stack) (StyleDefault\<lparr>tbg := ColorRed, tfg := ColorWhite\<rparr>))"
    from drawStackLines_events [OF _ this] show ?thesis by auto
  next
    assume "e \<in> set (drawText (go_div (w - 20) 2) (h - 2) (str ''Press Ctrl+C to quit'')
                     (StyleDefault\<lparr>tbg := ColorRed, tfg := ColorWhite, tdim := True\<rparr>))"
    from drawText_events [OF this] show ?thesis by auto
  qed
qed

lemma errorScreen_fill:
  assumes "0 \<le> x" "x < fst sz" "0 \<le> y" "y < snd sz"
  shows "SetContent x y 32 (StyleDefault\<lparr>tbg := ColorRed, tfg := ColorWhite\<rparr>) \<in> set (errorScreen f sz pv stack)"
proof -
  obtain w h where sz: "sz = (w, h)" by (cases sz)
  have "x \<in> set [0..w - 1]" and "y \<in> set [0..h - 1]"
    using assms sz by simp_all
  then have "SetContent x y 32 (StyleDefault\<lparr>tbg := ColorRed, tfg := ColorWhite\<rparr>)
      \<in> set (concat (map (\<lambda>y. map (\<lambda>x. SetContent x y 32 (StyleDefault\<lparr>tbg := ColorRed, tfg := ColorWhite\<rparr>)) [0..w - 1]) [0..h - 1]))"
    by (simp del: set_upto) blast
  then show ?thesis unfolding sz errorScreen_parts by simp
qed

lemma errorScreen_background:
  assumes "0 \<le> x" "x < fst sz" "0 \<le> y" "y < snd sz"
  shows "\<exists>r s. cellAt (errorScreen f sz pv stack) x y = Some (r, s) \<and> tbg s = ColorRed \<and> tfg s = ColorWhite"
proof -
  have "cellAt (errorScreen f sz pv stack) x y \<noteq> None"
    by (rule cellAt_mem_Some [OF errorScreen_fill [OF assms]])
  then obtain r s where c: "cellAt (errorScreen f sz pv stack) x y = Some (r, s)" by auto
  from errorScreen_styles [OF cellAt_Some_mem [OF c]] show ?thesis using c by auto
qed

lemma drawText_other_row:
  "row \<noteq> y \<Longrightarrow> cellAt (drawText x y ts style) col row = None"
  by (rule cellAt_other_rows) (use drawText_events in blast)

lemma drawStackLines_other_row:
  "row < 7 \<Longrightarrow> cellAt (drawStackLines 0 h ls style) col row = None"
proof (rule cellAt_other_rows)
  fix e assume "row < 7" "e \<in> set (drawStackLines 0 h ls style)"
  then show "\<exists>x' y' r s. e = SetContent x' y' r s \<and> y' \<noteq> row"
    using drawStackLines_events [of 0 e h ls style] by auto
qed

lemma take_str_len:
  "k \<le> length s \<Longrightarrow> \<forall>c \<in> set s. of_char c < (128 :: nat) \<Longrightarrow> len (take k (str s)) = int k"
proof -
  assume k: "k \<le> length s" and a: "\<forall>c \<in> set s. of_char c < (128 :: nat)"
  have "\<forall>r \<in> set (take k (str s)). r < 0x80"
    using str_ascii [OF a] by (meson in_set_takeD)
  then have "len (take k (str s)) = int (length (take k (str s)))" by (rule len_ascii)
  then show ?thesis using k by (simp add: str_def)
qed

lemma errorScreen_title:
  assumes "snd sz \<noteq> 4" and "k < 22"
  shows "cellAt (errorScreen f sz pv stack) (go_div (fst sz - 22) 2 + int k) 2
           = Some (str ''  REGO RUNTIME PANIC  '' ! k, StyleDefault\<lparr>tbg := ColorRed, tfg := ColorWhite, tbold := True\<rparr>)"
proof -
  obtain w h where sz: "sz = (w, h)" by (cases sz)
  have h: "2 \<noteq> h - 2" using assms(1) sz by simp
  have l: "len (take k (str ''  REGO RUNTIME PANIC  '')) = int k"
    by (rule take_str_len) (use assms(2) in simp_all)
  have t: "cellAt (drawText (go_div (w - 22) 2) 2 (str ''  REGO RUNTIME PANIC  '')
               (StyleDefault\<lparr>tbg := ColorRed, tfg := ColorWhite, tbold := True\<rparr>))
             (go_div (w - 22) 2 + int k) 2
           = Some (str ''  REGO RUNTIME PANIC  '' ! k, StyleDefault\<lparr>tbg := ColorRed, tfg := ColorWhite, tbold := True\<rparr>)"
    using drawText_cell [of k "str ''  REGO RUNTIME PANIC  ''" "go_div (w - 22) 2" 2] assms(2)
    unfolding l by (simp add: str_def)
  show ?thesis
    unfolding sz errorScreen_parts fst_conv snd_conv cellAt_append t
    using h by (simp add: drawText_other_row drawStackLines_other_row)
qed

lemma errorScreen_message:
  assumes "snd sz \<noteq> 6" and "k < length (str ''Error: '' @ f pv)"
  shows "cellAt (errorScreen f sz pv stack) (2 + len (take k (str ''Error: '' @ f pv))) 4
           = Some ((str ''Error: '' @ f pv) ! k, StyleDefault\<lparr>tbg := ColorRed, tfg := ColorWhite\<rparr>)"
proof -
  obtain w h where sz: "sz = (w, h)" by (cases sz)
  have h: "4 \<noteq> h - 2" using assms(1) sz by simp
  have t: "cellAt (drawText 2 4 (str ''Error: '' @ f pv) (StyleDefault\<lparr>tbg := ColorRed, tfg := ColorWhite\<rparr>))
             (2 + len (take k (str ''Error: '' @ f pv))) 4
           = Some ((str ''Error: '' @ f pv) ! k, StyleDefault\<lparr>tbg := ColorRed, tfg := ColorWhite\<rparr>)"
    by (rule drawText_cell [OF assms(2)])
  show ?thesis
    unfolding sz errorScreen_parts fst_conv snd_conv cellAt_append t
    using h by (simp add: drawText_other_row drawStackLines_other_row)
qed

lemma errorScreen_footer:
  assumes "k < 20"
  shows "cellAt (errorScreen f sz pv stack) (go_div (fst sz - 20) 2 + int k) (snd sz - 2)
           = Some (str ''Press Ctrl+C to quit'' ! k, StyleDefault\<lparr>tbg := ColorRed, tfg := ColorWhite, tdim := True\<rparr>)"
proof -
  obtain w h where sz: "sz = (w, h)" by (cases sz)
  have l: "len (take k (str ''Press Ctrl+C to quit'')) = int k"
    by (rule take_str_len) (use assms in simp_all)
  have t: "cellAt (drawText (go_div (w - 20) 2) (h - 2) (str ''Press Ctrl+C to quit'')
               (StyleDefault\<lparr>tbg := ColorRed, tfg := ColorWhite, tdim := True\<rparr>))
             (go_div (w - 20) 2 + int k) (h - 2)
           = Some (str ''Press Ctrl+C to quit'' ! k, StyleDefault\<lparr>tbg := ColorRed, tfg := ColorWhite, tdim := True\<rparr>)"
    using drawText_cell [of k "str ''Press Ctrl+C to quit''" "go_div (w - 20) 2" "h - 2"] assms
    unfolding l by (simp add: str_def)
  show ?thesis
    unfolding sz errorScreen_parts fst_conv snd_conv cellAt_append t by simp
qed

subsection \<open>Render passes with a recorded panic\<close>

text \<open>
  A pass that starts with a recorded panic draws the diagnostic screen for that panic
  and changes neither the record of the panic nor the component tree; the component
  function is not consulted.
\<close>

lemma Runtime_render_after_panic:
  assumes "lastPanic r = Some v"
  shows "Runtime_render prog (r, t)
           = (r\<lparr>screen := errorScreen (fmtValue prog) (screenSize r) (Some v) (panicStack r),
                shown := errorScreen (fmtValue prog) (screenSize r) (Some v) (panicStack r)\<rparr>, t)"
  using assms by (simp add: Runtime_render_def drawErrorScreen_def Let_def)

lemma Runtime_render_after_panic_root:
  assumes "lastPanic (fst s) = Some v"
  shows "Runtime_render (prog\<lparr>root := root'\<rparr>) s = Runtime_render prog s"
  using assms by (cases s) (simp add: Runtime_render_after_panic)

text \<open>The pass in which the component function or the layout pass panics.\<close>

lemma Runtime_render_catches:
  assumes "lastPanic r = None"
    and "normalPass prog (r\<lparr>screen := []\<rparr>, t) = Inl (v, r1, t1)"
  shows "Runtime_render prog (r, t)
           = (r1\<lparr>lastPanic := Some v, panicStack := debugStack prog v,
                 screen := errorScreen (fmtValue prog) (screenSize r1) (Some v) (debugStack prog v),
                 shown := errorScreen (fmtValue prog) (screenSize r1) (Some v) (debugStack prog v)\<rparr>, t1)"
  using assms by (simp add: Runtime_render_def recovered_def drawErrorScreen_def Let_def)

lemma passes_after_panic:
  assumes "lastPanic (fst s) = Some v"
    and "\<forall>f. Between f \<in> set acts \<longrightarrow> keepsPanic f"
  shows "(\<forall>s' \<in> set (passes prog acts s).
            lastPanic (fst s') = Some v \<and> panicStack (fst s') = panicStack (fst s) \<and>
            shown (fst s') = errorScreen (fmtValue prog) (screenSize (fst s')) (Some v) (panicStack (fst s)))
         \<and> passes (prog\<lparr>root := root'\<rparr>) acts s = passes prog acts s"
  using assms
proof (induction acts arbitrary: s)
  case Nil
  then show ?case by simp
next
  case (Cons a acts)
  have rest: "\<forall>f. Between f \<in> set acts \<longrightarrow> keepsPanic f"
    using Cons.prems(2) by simp
  show ?case
  proof (cases a)
    case RenderPass
    obtain r t where s: "s = (r, t)" by (cases s)
    let ?s1 = "Runtime_render prog s"
    have lp: "lastPanic r = Some v" using Cons.prems(1) s by simp
    have s1: "?s1 = (r\<lparr>screen := errorScreen (fmtValue prog) (screenSize r) (Some v) (panicStack r),
                        shown := errorScreen (fmtValue prog) (screenSize r) (Some v) (panicStack r)\<rparr>, t)"
      unfolding s by (rule Runtime_render_after_panic [OF lp])
    have p1: "lastPanic (fst ?s1) = Some v" and k1: "panicStack (fst ?s1) = panicStack (fst s)"
      and sh1: "shown (fst ?s1) = errorScreen (fmtValue prog) (screenSize (fst ?s1)) (Some v) (panicStack (fst s))"
      using lp s1 s by simp_all
    have same: "Runtime_render (prog\<lparr>root := root'\<rparr>) s = ?s1"
      by (rule Runtime_render_after_panic_root [OF Cons.prems(1)])
    have ih: "(\<forall>s' \<in> set (passes prog acts ?s1).
            lastPanic (fst s') = Some v \<and> panicStack (fst s') = panicStack (fst ?s1) \<and>
            shown (fst s') = errorScreen (fmtValue prog) (screenSize (fst s')) (Some v) (panicStack (fst ?s1)))
         \<and> passes (prog\<lparr>root := root'\<rparr>) acts ?s1 = passes prog acts ?s1"
      by (rule Cons.IH [OF p1 rest])
    show ?thesis using RenderPass ih p1 k1 sh1 same by simp
  next
    case (Between f)
    then have kf: "keepsPanic f" using Cons.prems(2) by simp
    from kf have "lastPanic (fst (f s)) = lastPanic (fst s) \<and> panicStack (fst (f s)) = panicStack (fst s)"
      unfolding keepsPanic_def by blast
    then have p1: "lastPanic (fst (f s)) = Some v" and k1: "panicStack (fst (f s)) = panicStack (fst s)"
      using Cons.prems(1) by simp_all
    have ih: "(\<forall>s' \<in> set (passes prog acts (f s)).
            lastPanic (fst s') = Some v \<and> panicStack (fst s') = panicStack (fst (f s)) \<and>
            shown (fst s') = errorScreen (fmtValue prog) (screenSize (fst s')) (Some v) (panicStack (fst (f s))))
         \<and> passes (prog\<lparr>root := root'\<rparr>) acts (f s) = passes prog acts (f s)"
      by (rule Cons.IH [OF p1 rest])
    show ?thesis using Between ih k1 by simp
  qed
qed

text \<open>
  C9. Take a state without a recorded panic in which the render pass faults: the root
  component function panics with a value \<open>v\<close>, or it returns a node whose layout pass
  panics (then \<open>v\<close> is the run-time error). Let any activity follow, render passes
  interleaved with steps that do not assign the panic record. Then the faulting pass
  and every later pass end normally, each with the panic \<open>v\<close> recorded and with the
  diagnostic screen for \<open>v\<close> made visible, and no pass after the faulting one calls the
  component function: replacing it does not change the run. The diagnostic screen is
  full-screen: every cell of the terminal reads back with the red background and the white
  foreground. It carries the title \<open>REGO RUNTIME PANIC\<close> in bold in row 2, centred (unless
  the terminal has 4 rows), the message \<open>Error:\<close> followed by the panic value from column 2
  of row 4, each rune at its byte offset (unless the terminal has 6 rows), and the
  footer \<open>Press Ctrl+C to quit\<close> dimmed in the last row but one, centred.
\<close>

theorem render_fault_containment:
  assumes "lastPanic r = None"
    and "(\<exists>s1. root prog (r\<lparr>screen := [], focusManager := Reset (focusManager r), showCursor := False\<rparr>,
                          resetRoot t) = Panicked v s1)
         \<or> (\<exists>nd s1. root prog (r\<lparr>screen := [], focusManager := Reset (focusManager r), showCursor := False\<rparr>,
                               resetRoot t) = Returned (Some nd) s1
              \<and> render (widths prog) nd 0 0 (fst (screenSize (fst s1))) (snd (screenSize (fst s1))) = None
              \<and> v = divideError prog)"
    and "\<forall>f. Between f \<in> set acts \<longrightarrow> keepsPanic f"
  shows "(\<forall>s' \<in> set (passes prog (RenderPass # acts) (r, t)).
            lastPanic (fst s') = Some v
            \<and> shown (fst s') = errorScreen (fmtValue prog) (screenSize (fst s')) (Some v) (debugStack prog v)
            \<and> (\<forall>x y. 0 \<le> x \<and> x < fst (screenSize (fst s')) \<and> 0 \<le> y \<and> y < snd (screenSize (fst s')) \<longrightarrow>
                  (\<exists>c st. cellAt (shown (fst s')) x y = Some (c, st) \<and> tbg st = ColorRed \<and> tfg st = ColorWhite))
            \<and> (snd (screenSize (fst s')) \<noteq> 4 \<longrightarrow>
                  (\<forall>k < 22. cellAt (shown (fst s')) (go_div (fst (screenSize (fst s')) - 22) 2 + int k) 2
                     = Some (str ''  REGO RUNTIME PANIC  '' ! k,
                             StyleDefault\<lparr>tbg := ColorRed, tfg := ColorWhite, tbold := True\<rparr>)))
            \<and> (snd (screenSize (fst s')) \<noteq> 6 \<longrightarrow>
                  (\<forall>k < length (str ''Error: '' @ fmtValue prog (Some v)).
                     cellAt (shown (fst s')) (2 + len (take k (str ''Error: '' @ fmtValue prog (Some v)))) 4
                     = Some ((str ''Error: '' @ fmtValue prog (Some v)) ! k,
                             StyleDefault\<lparr>tbg := ColorRed, tfg := ColorWhite\<rparr>)))
            \<and> (\<forall>k < 20. cellAt (shown (fst s')) (go_div (fst (screenSize (fst s')) - 20) 2 + int k)
                            (snd (screenSize (fst s')) - 2)
                     = Some (str ''Press Ctrl+C to quit'' ! k,
                             StyleDefault\<lparr>tbg := ColorRed, tfg := ColorWhite, tdim := True\<rparr>)))
         \<and> (\<forall>root'. passes (prog\<lparr>root := root'\<rparr>) acts (Runtime_render prog (r, t))
                       = passes prog acts (Runtime_render prog (r, t)))"
proof -
  let ?r0 = "r\<lparr>screen := []\<rparr>"
  from assms(2) obtain s1 where np: "normalPass prog (?r0, t) = Inl (v, s1)"
    by (auto simp: normalPass_def)
  obtain r1 t1 where s1: "s1 = (r1, t1)" by (cases s1)
  let ?e = "errorScreen (fmtValue prog) (screenSize r1) (Some v) (debugStack prog v)"
  let ?s = "Runtime_render prog (r, t)"
  have caught: "?s = (r1\<lparr>lastPanic := Some v, panicStack := debugStack prog v, screen := ?e, shown := ?e\<rparr>, t1)"
    using Runtime_render_catches [OF assms(1) np [unfolded s1]] .
  have p: "lastPanic (fst ?s) = Some v" and k: "panicStack (fst ?s) = debugStack prog v"
    and sh: "shown (fst ?s) = errorScreen (fmtValue prog) (screenSize (fst ?s)) (Some v) (debugStack prog v)"
    using caught by simp_all
  have later: "\<And>root'. (\<forall>s' \<in> set (passes prog acts ?s).
            lastPanic (fst s') = Some v \<and> panicStack (fst s') = panicStack (fst ?s) \<and>
            shown (fst s') = errorScreen (fmtValue prog) (screenSize (fst s')) (Some v) (panicStack (fst ?s)))
         \<and> passes (prog\<lparr>root := root'\<rparr>) acts ?s = passes prog acts ?s"
    by (rule passes_after_panic [OF p assms(3)])
  have each: "\<forall>s' \<in> set (passes prog (RenderPass # acts) (r, t)).
            lastPanic (fst s') = Some v
            \<and> shown (fst s') = errorScreen (fmtValue prog) (screenSize (fst s')) (Some v) (debugStack prog v)"
    using later p sh k by simp
  have same: "\<forall>root'. passes (prog\<lparr>root := root'\<rparr>) acts ?s = passes prog acts ?s"
    using later by simp
  show ?thesis
  proof (intro conjI ballI)
    fix s' assume "s' \<in> set (passes prog (RenderPass # acts) (r, t))"
    then have lp: "lastPanic (fst s') = Some v"
      and vis: "shown (fst s') = errorScreen (fmtValue prog) (screenSize (fst s')) (Some v) (debugStack prog v)"
      using each by blast+
    show "lastPanic (fst s') = Some v" by (rule lp)
    show "shown (fst s') = errorScreen (fmtValue prog) (screenSize (fst s')) (Some v) (debugStack prog v)"
      by (rule vis)
    show "\<forall>x y. 0 \<le> x \<and> x < fst (screenSize (fst s')) \<and> 0 \<le> y \<and> y < snd (screenSize (fst s')) \<longrightarrow>
                  (\<exists>c st. cellAt (shown (fst s')) x y = Some (c, st) \<and> tbg st = ColorRed \<and> tfg st = ColorWhite)"
      unfolding vis by (intro allI impI, elim conjE) (rule errorScreen_background)
    show "snd (screenSize (fst s')) \<noteq> 4 \<longrightarrow>
                  (\<forall>k < 22. cellAt (shown (fst s')) (go_div (fst (screenSize (fst s')) - 22) 2 + int k) 2
                     = Some (str ''  REGO RUNTIME PANIC  '' ! k,
                             StyleDefault\<lparr>tbg := ColorRed, tfg := ColorWhite, tbold := True\<rparr>))"
      unfolding vis by (intro allI impI) (rule errorScreen_title)
    show "snd (screenSize (fst s')) \<noteq> 6 \<longrightarrow>
                  (\<forall>k < length (str ''Error: '' @ fmtValue prog (Some v)).
                     cellAt (shown (fst s')) (2 + len (take k (str ''Error: '' @ fmtValue prog (Some v)))) 4
                     = Some ((str ''Error: '' @ fmtValue prog (Some v)) ! k,
                             StyleDefault\<lparr>tbg := ColorRed, tfg := ColorWhite\<rparr>))"
      unfolding vis by (intro allI impI) (rule errorScreen_message)
    show "\<forall>k < 20. cellAt (shown (fst s')) (go_div (fst (screenSize (fst s')) - 20) 2 + int k)
                            (snd (screenSize (fst s')) - 2)
                     = Some (str ''Press Ctrl+C to quit'' ! k,
                             StyleDefault\<lparr>tbg := ColorRed, tfg := ColorWhite, tdim := True\<rparr>)"
      unfolding vis by (intro allI impI) (rule errorScreen_footer)
  next
    show "\<forall>root'. passes (prog\<lparr>root := root'\<rparr>) acts ?s = passes prog acts ?s"
      by (rule same)
  qed
qed

text \<open>
  The program of the repository's recovery test, whose component function panics with
  \<open>oops\<close>, on a 40 by 12 terminal: a render pass, an input step that schedules a
  refresh, and another render pass. After either pass the panic is recorded, the \<open>R\<close> of
  the title is read back in bold at column 11 of row 2, the first \<open>o\<close> of the panic value
  at column 9 of row 4, the \<open>P\<close> of the footer dimmed at column 10 of row 10, and the
  cell in the bottom right corner is red with a white foreground.
\<close>

theorem render_fault_containment_witness:
  "lastPanic (newRuntime (40, 12) :: string Runtime) = None
   \<and> keepsPanic (\<lambda>s :: string Runtime \<times> (string, string) componentContext. (scheduleRefresh (fst s), snd s))
   \<and> map (\<lambda>s. (lastPanic (fst s),
               cellAt (shown (fst s)) 11 2,
               cellAt (shown (fst s)) 9 4,
               cellAt (shown (fst s)) 10 10,
               map_option (\<lambda>c. (tbg (snd c), tfg (snd c))) (cellAt (shown (fst s)) 39 11)))
        (passes \<lparr>widths = \<lparr>RuneWidth = (\<lambda>r. 1), StringWidth = (\<lambda>s. int (length s))\<rparr>,
                 fmtValue = (\<lambda>v. case v of Some m \<Rightarrow> str m | None \<Rightarrow> str ''<nil>''),
                 debugStack = (\<lambda>v. str ''goroutine 1 [running]:''),
                 divideError = ''runtime error: integer divide by zero'',
                 boxInt = (\<lambda>n. ''int''),
                 root = (\<lambda>s. Panicked ''oops'' s)\<rparr>
           [RenderPass, Between (\<lambda>s. (scheduleRefresh (fst s), snd s)), RenderPass]
           (newRuntime (40, 12),
            componentContext 0 ''root'' newContextFields [] :: (string, string) componentContext))
       = [(Some ''oops'',
           Some (82, StyleDefault\<lparr>tbg := ColorRed, tfg := ColorWhite, tbold := True\<rparr>),
           Some (111, StyleDefault\<lparr>tbg := ColorRed, tfg := ColorWhite\<rparr>),
           Some (80, StyleDefault\<lparr>tbg := ColorRed, tfg := ColorWhite, tdim := True\<rparr>),
           Some (ColorRed, ColorWhite)),
          (Some ''oops'',
           Some (82, StyleDefault\<lparr>tbg := ColorRed, tfg := ColorWhite, tbold := True\<rparr>),
           Some (111, StyleDefault\<lparr>tbg := ColorRed, tfg := ColorWhite\<rparr>),
           Some (80, StyleDefault\<lparr>tbg := ColorRed, tfg := ColorWhite, tdim := True\<rparr>),
           Some (ColorRed, ColorWhite))]"
proof -
  let ?prog = "\<lparr>widths = \<lparr>RuneWidth = (\<lambda>r. 1), StringWidth = (\<lambda>s. int (length s))\<rparr>,
                 fmtValue = (\<lambda>v. case v of Some m \<Rightarrow> str m | None \<Rightarrow> str ''<nil>''),
                 debugStack = (\<lambda>v. str ''goroutine 1 [running]:''),
                 divideError = ''runtime error: integer divide by zero'',
                 boxInt = (\<lambda>n. ''int''),
                 root = (\<lambda>s. Panicked ''oops'' s)\<rparr> :: (string, string) program"
  let ?r = "newRuntime (40, 12) :: string Runtime"
  let ?t = "componentContext 0 ''root'' newContextFields [] :: (string, string) componentContext"
  let ?f = "\<lambda>s :: string Runtime \<times> (string, string) componentContext. (scheduleRefresh (fst s), snd s)"
  let ?acts = "[Between ?f, RenderPass]"
  let ?bold = "StyleDefault\<lparr>tbg := ColorRed, tfg := ColorWhite, tbold := True\<rparr>"
  let ?plain = "StyleDefault\<lparr>tbg := ColorRed, tfg := ColorWhite\<rparr>"
  let ?dim = "StyleDefault\<lparr>tbg := ColorRed, tfg := ColorWhite, tdim := True\<rparr>"
  let ?obs = "\<lambda>s :: string Runtime \<times> (string, string) componentContext.
               (lastPanic (fst s),
               cellAt (shown (fst s)) 11 2,
               cellAt (shown (fst s)) 9 4,
               cellAt (shown (fst s)) 10 10,
               map_option (\<lambda>c. (tbg (snd c), tfg (snd c))) (cellAt (shown (fst s)) 39 11))"
  let ?row = "(Some ''oops'', Some (82, ?bold), Some (111, ?plain), Some (80, ?dim), Some (ColorRed, ColorWhite))"
  have none: "lastPanic ?r = None" by (simp add: newRuntime_def)
  have kp: "keepsPanic ?f" by (simp add: keepsPanic_def scheduleRefresh_def)
  have fault: "(\<exists>s1. root ?prog (?r\<lparr>screen := [], focusManager := Reset (focusManager ?r), showCursor := False\<rparr>,
                          resetRoot ?t) = Panicked ''oops'' s1)
         \<or> (\<exists>nd s1. root ?prog (?r\<lparr>screen := [], focusManager := Reset (focusManager ?r), showCursor := False\<rparr>,
                               resetRoot ?t) = Returned (Some nd) s1
              \<and> render (widths ?prog) nd 0 0 (fst (screenSize (fst s1))) (snd (screenSize (fst s1))) = None
              \<and> ''oops'' = divideError ?prog)"
    by simp
  have acts: "\<forall>f. Between f \<in> set ?acts \<longrightarrow> keepsPanic f" using kp by simp
  define P where "P = passes ?prog (RenderPass # ?acts) (?r, ?t)"
  have two: "length P = 2" unfolding P_def by simp
  have size: "\<forall>s' \<in> set P. screenSize (fst s') = (40, 12)"
    unfolding P_def
    by (simp add: Runtime_render_def normalPass_def recovered_def drawErrorScreen_def
          scheduleRefresh_def newRuntime_def Let_def)
  have msg: "str ''Error: '' @ fmtValue ?prog (Some ''oops'') = str ''Error: oops''"
    by (simp add: str_def)
  have l7: "len (take 7 (str ''Error: oops'')) = 7"
    by (simp add: str_def len_def RuneLen_def)
  have each: "\<forall>s' \<in> set P. ?obs s' = ?row"
  proof
    fix s' assume mem: "s' \<in> set P"
    then have sz: "screenSize (fst s') = (40, 12)" using size by blast
    from mem have
      "lastPanic (fst s') = Some ''oops''
       \<and> shown (fst s') = errorScreen (fmtValue ?prog) (screenSize (fst s')) (Some ''oops'') (debugStack ?prog ''oops'')
       \<and> (\<forall>x y. 0 \<le> x \<and> x < fst (screenSize (fst s')) \<and> 0 \<le> y \<and> y < snd (screenSize (fst s')) \<longrightarrow>
                  (\<exists>c st. cellAt (shown (fst s')) x y = Some (c, st) \<and> tbg st = ColorRed \<and> tfg st = ColorWhite))
       \<and> (snd (screenSize (fst s')) \<noteq> 4 \<longrightarrow>
                  (\<forall>k < 22. cellAt (shown (fst s')) (go_div (fst (screenSize (fst s')) - 22) 2 + int k) 2
                     = Some (str ''  REGO RUNTIME PANIC  '' ! k, ?bold)))
       \<and> (snd (screenSize (fst s')) \<noteq> 6 \<longrightarrow>
                  (\<forall>k < length (str ''Error: '' @ fmtValue ?prog (Some ''oops'')).
                     cellAt (shown (fst s')) (2 + len (take k (str ''Error: '' @ fmtValue ?prog (Some ''oops'')))) 4
                     = Some ((str ''Error: '' @ fmtValue ?prog (Some ''oops'')) ! k, ?plain)))
       \<and> (\<forall>k < 20. cellAt (shown (fst s')) (go_div (fst (screenSize (fst s')) - 20) 2 + int k)
                            (snd (screenSize (fst s')) - 2)
                     = Some (str ''Press Ctrl+C to quit'' ! k, ?dim))"
      unfolding P_def using render_fault_containment [OF none fault acts] by blast
    note all = this
    note lp = all [THEN conjunct1]
    have bg: "\<forall>x y. 0 \<le> x \<and> x < 40 \<and> 0 \<le> y \<and> y < 12 \<longrightarrow>
                  (\<exists>c st. cellAt (shown (fst s')) x y = Some (c, st) \<and> tbg st = ColorRed \<and> tfg st = ColorWhite)"
      using all [THEN conjunct2, THEN conjunct2, THEN conjunct1] unfolding sz by simp
    have title: "\<forall>k < 22. cellAt (shown (fst s')) (go_div (40 - 22) 2 + int k) 2
                     = Some (str ''  REGO RUNTIME PANIC  '' ! k, ?bold)"
      using all [THEN conjunct2, THEN conjunct2, THEN conjunct2, THEN conjunct1] unfolding sz by simp
    have message: "\<forall>k < length (str ''Error: oops'').
                     cellAt (shown (fst s')) (2 + len (take k (str ''Error: oops''))) 4
                     = Some (str ''Error: oops'' ! k, ?plain)"
      using all [THEN conjunct2, THEN conjunct2, THEN conjunct2, THEN conjunct2, THEN conjunct1]
      unfolding sz msg by simp
    have footer: "\<forall>k < 20. cellAt (shown (fst s')) (go_div (40 - 20) 2 + int k) (12 - 2)
                     = Some (str ''Press Ctrl+C to quit'' ! k, ?dim)"
      using all [THEN conjunct2, THEN conjunct2, THEN conjunct2, THEN conjunct2, THEN conjunct2]
      unfolding sz by simp
    have c1: "cellAt (shown (fst s')) 11 2 = Some (82, ?bold)"
      using title [rule_format, of 2] by (simp add: go_div_def str_def)
    have c2: "cellAt (shown (fst s')) 9 4 = Some (111, ?plain)"
      using message [rule_format, of 7] unfolding l7 by (simp add: str_def)
    have c3: "cellAt (shown (fst s')) 10 10 = Some (80, ?dim)"
      using footer [rule_format, of 0] by (simp add: go_div_def str_def)
    have c4: "map_option (\<lambda>c. (tbg (snd c), tfg (snd c))) (cellAt (shown (fst s')) 39 11) = Some (ColorRed, ColorWhite)"
      using bg [rule_format, of 39 11] by auto
    show "?obs s' = ?row" using lp c1 c2 c3 c4 by simp
  qed
  have "map ?obs P = map (\<lambda>s. ?row) P"
    using each by (intro map_cong) auto
  also have "\<dots> = replicate (length P) ?row"
    by (rule map_replicate_const)
  also have "\<dots> = [?row, ?row]"
    unfolding two by (simp add: numeral_2_eq_2)
  finally have final: "map ?obs (passes ?prog (RenderPass # ?acts) (?r, ?t)) = [?row, ?row]"
    unfolding P_def .
  show ?thesis by (intro conjI none kp final)
qed
section \<open>Writes to state cells\<close>





end
